theory Spec2Isabelle
  imports Complex_Main
begin

section \<open>JavaScript strings and characters\<close>

text \<open>
  The class \<^verbatim>\<open>FuzzyMatcher\<close> (the module \<^verbatim>\<open>services/fuzzy-matcher\<close> that the handler
  requires; its text follows the movie database service in
  \<^verbatim>\<open>src/services/movie-database.js\<close>) works on JavaScript strings. A string is modelled as a \<^typ>\<open>string\<close>; each \<^typ>\<open>char\<close> stands for
  one UTF-16 code unit in the range U+0000 .. U+00FF, so the model covers the Latin-1
  strings (all ASCII file names, and the accented letters of the \<^verbatim>\<open>charMap\<close> table apart
  from U+0153). Scores are JavaScript numbers; they are modelled as \<^typ>\<open>real\<close>.
\<close>

definition charCode :: "char \<Rightarrow> nat" where
  "charCode c = of_char c"

definition isDigit :: "char \<Rightarrow> bool" where
  "isDigit c = (c \<in> set ''0123456789'')"

definition upperAZ :: string where
  "upperAZ = ''ABCDEFGHIJKLMNOPQRSTUVWXYZ''"

definition lowerAZ :: string where
  "lowerAZ = ''abcdefghijklmnopqrstuvwxyz''"

definition isUpper :: "char \<Rightarrow> bool" where
  "isUpper c = (c \<in> set upperAZ)"

definition isLower :: "char \<Rightarrow> bool" where
  "isLower c = (c \<in> set lowerAZ)"

text \<open>The class \<^verbatim>\<open>\w\<close>: \<^verbatim>\<open>[A-Za-z0-9_]\<close>.\<close>

definition isWordChar :: "char \<Rightarrow> bool" where
  "isWordChar c = (isLower c \<or> isDigit c \<or> isUpper c \<or> c = CHR ''_'')"

text \<open>The class \<^verbatim>\<open>\s\<close> on U+0000 .. U+00FF: TAB, LF, VT, FF, CR, space, NBSP.\<close>

definition isSpace :: "char \<Rightarrow> bool" where
  "isSpace c = (c \<in> set [CHR 0x20, CHR 0x09, CHR 0x0A, CHR 0x0B, CHR 0x0C, CHR 0x0D, CHR 0xA0])"

definition isLineTerminator :: "char \<Rightarrow> bool" where
  "isLineTerminator c = (c = CHR 0x0A \<or> c = CHR 0x0D)"

text \<open>
  The capital letters of U+00C0 .. U+00DE (U+00D7, the multiplication sign, is none) and,
  in the same order, their small letters U+00E0 .. U+00FE (without U+00F7).
\<close>

definition upperLatin :: string where
  "upperLatin =
     [CHR 0xC0, CHR 0xC1, CHR 0xC2, CHR 0xC3, CHR 0xC4, CHR 0xC5, CHR 0xC6, CHR 0xC7,
      CHR 0xC8, CHR 0xC9, CHR 0xCA, CHR 0xCB, CHR 0xCC, CHR 0xCD, CHR 0xCE, CHR 0xCF,
      CHR 0xD0, CHR 0xD1, CHR 0xD2, CHR 0xD3, CHR 0xD4, CHR 0xD5, CHR 0xD6,
      CHR 0xD8, CHR 0xD9, CHR 0xDA, CHR 0xDB, CHR 0xDC, CHR 0xDD, CHR 0xDE]"

definition lowerLatin :: string where
  "lowerLatin =
     [CHR 0xE0, CHR 0xE1, CHR 0xE2, CHR 0xE3, CHR 0xE4, CHR 0xE5, CHR 0xE6, CHR 0xE7,
      CHR 0xE8, CHR 0xE9, CHR 0xEA, CHR 0xEB, CHR 0xEC, CHR 0xED, CHR 0xEE, CHR 0xEF,
      CHR 0xF0, CHR 0xF1, CHR 0xF2, CHR 0xF3, CHR 0xF4, CHR 0xF5, CHR 0xF6,
      CHR 0xF8, CHR 0xF9, CHR 0xFA, CHR 0xFB, CHR 0xFC, CHR 0xFD, CHR 0xFE]"

definition isUpperLatin :: "char \<Rightarrow> bool" where
  "isUpperLatin c = (c \<in> set upperLatin)"

definition isLowerLatin :: "char \<Rightarrow> bool" where
  "isLowerLatin c = (c \<in> set lowerLatin)"

text \<open>
  A capital letter and its small letter differ by 32, which is bit 5 of the code unit:
  it is clear in the capital and set in the small letter.
\<close>

fun with_bit5 :: "bool \<Rightarrow> char \<Rightarrow> char" where
  "with_bit5 v (Char b0 b1 b2 b3 b4 b5 b6 b7) = Char b0 b1 b2 b3 b4 v b6 b7"

text \<open>
  \<^verbatim>\<open>String.prototype.toLowerCase\<close> on U+0000 .. U+00FF: the ASCII capitals and the
  Latin-1 capitals become the small letters, every other character stays.
\<close>

definition lowerChar :: "char \<Rightarrow> char" where
  "lowerChar c = (if isUpper c \<or> isUpperLatin c then with_bit5 True c else c)"

definition toLowerCase :: "string \<Rightarrow> string" where
  "toLowerCase s = map lowerChar s"

text \<open>
  The \<^verbatim>\<open>Canonicalize\<close> operation of a case-insensitive regular expression (flag
  \<^verbatim>\<open>i\<close>, no \<^verbatim>\<open>u\<close>): the upper-case form when that is a single code unit and
  does not turn a non-ASCII character into an ASCII one. On U+0000 .. U+00FF the small
  letters above become the capitals; U+00B5, U+00DF and U+00FF, whose upper-case forms
  are outside this range or longer, keep a canonical form of their own.
\<close>

definition canonicalize :: "char \<Rightarrow> char" where
  "canonicalize c = (if isLower c \<or> isLowerLatin c then with_bit5 False c else c)"

text \<open>
  The same classes of characters, read off the bits of the code unit (bit 0 first); they
  are shown below to be the classes above and serve to evaluate them.
\<close>

definition letter_bits :: "bool \<Rightarrow> bool \<Rightarrow> bool \<Rightarrow> bool \<Rightarrow> bool \<Rightarrow> bool" where
  "letter_bits b0 b1 b2 b3 b4 =
     ((b0 \<or> b1 \<or> b2 \<or> b3 \<or> b4) \<and> \<not> (b4 \<and> b3 \<and> (b2 \<or> (b1 \<and> b0))))"

fun isDigit_bits :: "char \<Rightarrow> bool" where
  "isDigit_bits (Char b0 b1 b2 b3 b4 b5 b6 b7) =
     (\<not> b7 \<and> \<not> b6 \<and> b5 \<and> b4 \<and> (\<not> b3 \<or> (\<not> b2 \<and> \<not> b1)))"

fun isLower_bits :: "char \<Rightarrow> bool" where
  "isLower_bits (Char b0 b1 b2 b3 b4 b5 b6 b7) = (\<not> b7 \<and> b6 \<and> b5 \<and> letter_bits b0 b1 b2 b3 b4)"

fun isUpper_bits :: "char \<Rightarrow> bool" where
  "isUpper_bits (Char b0 b1 b2 b3 b4 b5 b6 b7) = (\<not> b7 \<and> b6 \<and> \<not> b5 \<and> letter_bits b0 b1 b2 b3 b4)"

fun isLowerLatin_bits :: "char \<Rightarrow> bool" where
  "isLowerLatin_bits (Char b0 b1 b2 b3 b4 b5 b6 b7) = (b7 \<and> b6 \<and> b5 \<and> \<not> (b0 \<and> b1 \<and> b2 \<and> b4))"

fun isUpperLatin_bits :: "char \<Rightarrow> bool" where
  "isUpperLatin_bits (Char b0 b1 b2 b3 b4 b5 b6 b7) = (b7 \<and> b6 \<and> \<not> b5 \<and> \<not> (b0 \<and> b1 \<and> b2 \<and> b4))"

fun isSpace_bits :: "char \<Rightarrow> bool" where
  "isSpace_bits (Char b0 b1 b2 b3 b4 b5 b6 b7) =
     (\<not> b6 \<and> \<not> b4 \<and>
      (if b5 then \<not> b0 \<and> \<not> b1 \<and> \<not> b2 \<and> \<not> b3
       else \<not> b7 \<and> b3 \<and> (b0 \<or> b1 \<or> b2) \<and> \<not> (b2 \<and> b1)))"

definition char_eq :: "bool \<Rightarrow> char \<Rightarrow> char \<Rightarrow> bool" where
  "char_eq ic a b = (if ic then canonicalize a = canonicalize b else a = b)"

text \<open>\<^verbatim>\<open>s.substring(a, b)\<close> for \<open>a \<le> b\<close>, and \<^verbatim>\<open>s.substring(a)\<close>.\<close>

definition substring :: "string \<Rightarrow> nat \<Rightarrow> nat \<Rightarrow> string" where
  "substring s a b = take (b - a) (drop a s)"

text \<open>\<^verbatim>\<open>s.startsWith(p)\<close>, \<^verbatim>\<open>s.indexOf(p)\<close> and \<^verbatim>\<open>s.includes(p)\<close>.\<close>

fun startsWith :: "string \<Rightarrow> string \<Rightarrow> bool" where
  "startsWith s [] = True"
| "startsWith [] (p # ps) = False"
| "startsWith (c # cs) (p # ps) = (c = p \<and> startsWith cs ps)"

fun indexOf_from :: "nat \<Rightarrow> string \<Rightarrow> string \<Rightarrow> nat option" where
  "indexOf_from k [] p = (if p = [] then Some k else None)"
| "indexOf_from k (c # cs) p =
     (if startsWith (c # cs) p then Some k else indexOf_from (Suc k) cs p)"

definition indexOf :: "string \<Rightarrow> string \<Rightarrow> nat option" where
  "indexOf s p = indexOf_from 0 s p"

definition includes_str :: "string \<Rightarrow> string \<Rightarrow> bool" where
  "includes_str s p = (indexOf s p \<noteq> None)"

text \<open>\<^verbatim>\<open>s.trim()\<close>: white space and line terminators are removed at both ends.\<close>

definition trim :: "string \<Rightarrow> string" where
  "trim s = rev (dropWhile isSpace (rev (dropWhile isSpace s)))"

text \<open>
  \<^verbatim>\<open>s.split(' ')\<close>: the pieces between the spaces; the empty string gives one empty
  piece. \<^verbatim>\<open>ws.join(' ')\<close> puts one space between the pieces.
\<close>

fun split_sp :: "string \<Rightarrow> string list" where
  "split_sp [] = [[]]"
| "split_sp (c # cs) =
     (if c = CHR '' '' then [] # split_sp cs
      else (case split_sp cs of [] \<Rightarrow> [[c]] | w # ws \<Rightarrow> (c # w) # ws))"

fun join_sp :: "string list \<Rightarrow> string" where
  "join_sp [] = []"
| "join_sp [w] = w"
| "join_sp (w # v # ws) = w @ CHR '' '' # join_sp (v # ws)"

section \<open>Regular expressions\<close>

text \<open>
  The regular expressions of the source are values of the datatype \<open>regex\<close>. A regular
  expression literal of the source is written down as the term it denotes;
  \<^verbatim>\<open>new RegExp(pattern)\<close> on a string computed at run time goes through \<open>RegExp_new\<close>
  below, which reads the pattern text and can raise \<^verbatim>\<open>SyntaxError\<close>.
\<close>

datatype citem =
    CChar char
  | CRange char char
  | CDigit | CNotDigit
  | CWord | CNotWord
  | CSpace | CNotSpace

datatype regex =
    Empty
  | Lit char
  | Dot
  | Class bool "citem list"
  | Bol
  | Eol
  | WordB
  | NotWordB
  | Seq regex regex
  | Alt regex regex
  | Rep nat "nat option" bool regex
  | Group nat regex
  | Backref nat

text \<open>
  \<open>Class neg items\<close> is \<^verbatim>\<open>[...]\<close> (\<^verbatim>\<open>[^...]\<close> when \<open>neg\<close>);
  \<open>Rep lo hi greedy r\<close> is \<open>r\<close> quantified (\<open>hi = None\<close>: no upper bound);
  \<open>Group k r\<close> is the capturing group number \<open>k\<close>; a non-capturing group is its body.
\<close>

definition Lits :: "string \<Rightarrow> regex" where
  "Lits s = foldr (\<lambda>c r. Seq (Lit c) r) s Empty"

definition Seqs :: "regex list \<Rightarrow> regex" where
  "Seqs rs = foldr Seq rs Empty"

fun Alts :: "regex list \<Rightarrow> regex" where
  "Alts [] = Empty"
| "Alts [r] = r"
| "Alts (r # rs) = Alt r (Alts rs)"

definition Star :: "regex \<Rightarrow> regex" where
  "Star r = Rep 0 None True r"

definition StarLazy :: "regex \<Rightarrow> regex" where
  "StarLazy r = Rep 0 None False r"

definition Plus :: "regex \<Rightarrow> regex" where
  "Plus r = Rep 1 None True r"

definition Opt :: "regex \<Rightarrow> regex" where
  "Opt r = Rep 0 (Some 1) True r"

definition Between :: "nat \<Rightarrow> nat \<Rightarrow> regex \<Rightarrow> regex" where
  "Between lo hi r = Rep lo (Some hi) True r"

definition Digit :: regex where
  "Digit = Class False [CDigit]"

definition Space :: regex where
  "Space = Class False [CSpace]"

definition OneOf :: "string \<Rightarrow> regex" where
  "OneOf s = Class False (map CChar s)"

subsection \<open>Matching\<close>

fun citem_match :: "bool \<Rightarrow> citem \<Rightarrow> char \<Rightarrow> bool" where
  "citem_match ic (CChar a) c = char_eq ic a c"
| "citem_match ic (CRange a b) c =
     (if ic then list_ex (\<lambda>d. charCode a \<le> charCode d \<and> charCode d \<le> charCode b) [c, canonicalize c, lowerChar c]
      else charCode a \<le> charCode c \<and> charCode c \<le> charCode b)"
| "citem_match ic CDigit c = isDigit c"
| "citem_match ic CNotDigit c = (\<not> isDigit c)"
| "citem_match ic CWord c = isWordChar c"
| "citem_match ic CNotWord c = (\<not> isWordChar c)"
| "citem_match ic CSpace c = isSpace c"
| "citem_match ic CNotSpace c = (\<not> isSpace c)"

definition class_match :: "bool \<Rightarrow> bool \<Rightarrow> citem list \<Rightarrow> char \<Rightarrow> bool" where
  "class_match ic neg items c = (list_ex (\<lambda>it. citem_match ic it c) items \<noteq> neg)"

text \<open>
  With the flag \<^verbatim>\<open>i\<close> a range matches a character when it holds a character with the
  same canonical form; the characters with the canonical form of \<open>c\<close> are \<open>c\<close>, its
  capital and its small letter.

  \<^verbatim>\<open>\b\<close> holds at \<open>i\<close> when exactly one of the characters at \<open>i - 1\<close> and \<open>i\<close> is a word character.\<close>

definition wordAt :: "string \<Rightarrow> nat \<Rightarrow> bool" where
  "wordAt s i = (i < length s \<and> isWordChar (s ! i))"

definition isBoundary :: "string \<Rightarrow> nat \<Rightarrow> bool" where
  "isBoundary s i = ((0 < i \<and> wordAt s (i - 1)) \<noteq> wordAt s i)"

type_synonym caps = "(nat \<times> nat \<times> nat) list"

fun groups :: "regex \<Rightarrow> nat list" where
  "groups (Seq r1 r2) = groups r1 @ groups r2"
| "groups (Alt r1 r2) = groups r1 @ groups r2"
| "groups (Rep lo hi g r) = groups r"
| "groups (Group k r) = k # groups r"
| "groups r = []"

definition clear_caps :: "nat list \<Rightarrow> caps \<Rightarrow> caps" where
  "clear_caps ks cs = filter (\<lambda>(k, a, b). k \<notin> set ks) cs"

text \<open>
  The backtracking matcher of ECMAScript, with the continuation of the standard written
  as a list of steps still to do: match an expression, close the capturing group \<open>k\<close>
  that was opened at \<open>b\<close>, or check that a round of a quantifier that started at \<open>b\<close>
  has moved on. \<open>run ic s ks i cs\<close> is the state (end position, captures) of the first
  way, in the order of backtracking, to do the steps \<open>ks\<close> from position \<open>i\<close> of \<open>s\<close> with
  the captures \<open>cs\<close>; \<open>ic\<close> is the flag \<^verbatim>\<open>i\<close>. A quantifier clears the captures of its
  body before each round and, once its lower bound is met, gives up a round that matched
  the empty string.
\<close>

datatype step = R regex | SetCap nat nat | Progress nat

fun weight :: "regex \<Rightarrow> nat" where
  "weight (Seq r1 r2) = weight r1 + weight r2 + 2"
| "weight (Alt r1 r2) = weight r1 + weight r2 + 1"
| "weight (Rep lo hi g r) = Suc lo * (weight r + 2)"
| "weight (Group k r) = weight r + 2"
| "weight r = 0"

fun steps_weight :: "step list \<Rightarrow> nat \<Rightarrow> nat" where
  "steps_weight [] i = 0"
| "steps_weight (R r # ks) i = weight r + 1 + steps_weight ks i"
| "steps_weight (SetCap k b # ks) i = 1 + steps_weight ks i"
| "steps_weight (Progress b # ks) i = 1 + (if b < i then steps_weight ks i else 0)"

definition backref_at :: "bool \<Rightarrow> string \<Rightarrow> nat \<Rightarrow> nat \<Rightarrow> nat \<Rightarrow> bool" where
  "backref_at ic s a b i =
     (i + (b - a) \<le> length s
      \<and> list_all2 (char_eq ic) (substring s a b) (substring s i (i + (b - a))))"

function run :: "bool \<Rightarrow> string \<Rightarrow> step list \<Rightarrow> nat \<Rightarrow> caps \<Rightarrow> (nat \<times> caps) option" where
  "run ic s [] i cs = Some (i, cs)"
| "run ic s (SetCap k b # ks) i cs = run ic s ks i ((k, b, i) # clear_caps [k] cs)"
| "run ic s (Progress b # ks) i cs =
     (if b < i \<and> i \<le> length s then run ic s ks i cs else None)"
| "run ic s (R Empty # ks) i cs = run ic s ks i cs"
| "run ic s (R (Lit c) # ks) i cs =
     (if i < length s \<and> char_eq ic c (s ! i) then run ic s ks (Suc i) cs else None)"
| "run ic s (R Dot # ks) i cs =
     (if i < length s \<and> \<not> isLineTerminator (s ! i) then run ic s ks (Suc i) cs else None)"
| "run ic s (R (Class neg items) # ks) i cs =
     (if i < length s \<and> class_match ic neg items (s ! i) then run ic s ks (Suc i) cs else None)"
| "run ic s (R Bol # ks) i cs = (if i = 0 then run ic s ks i cs else None)"
| "run ic s (R Eol # ks) i cs = (if i = length s then run ic s ks i cs else None)"
| "run ic s (R WordB # ks) i cs = (if isBoundary s i then run ic s ks i cs else None)"
| "run ic s (R NotWordB # ks) i cs = (if isBoundary s i then None else run ic s ks i cs)"
| "run ic s (R (Seq r1 r2) # ks) i cs = run ic s (R r1 # R r2 # ks) i cs"
| "run ic s (R (Alt r1 r2) # ks) i cs =
     (case run ic s (R r1 # ks) i cs of
        Some m \<Rightarrow> Some m
      | None \<Rightarrow> run ic s (R r2 # ks) i cs)"
| "run ic s (R (Group k r) # ks) i cs = run ic s (R r # SetCap k i # ks) i cs"
| "run ic s (R (Backref k) # ks) i cs =
     (case map_of cs k of
        None \<Rightarrow> run ic s ks i cs
      | Some (a, b) \<Rightarrow> if backref_at ic s a b i then run ic s ks (i + (b - a)) cs else None)"
| "run ic s (R (Rep lo hi g r) # ks) i cs =
     (if hi = Some 0 then run ic s ks i cs
      else if 0 < lo then
        run ic s (R r # R (Rep (lo - 1) (map_option (\<lambda>h. h - 1) hi) g r) # ks) i
          (clear_caps (groups r) cs)
      else if g then
        (case run ic s (R r # Progress i # R (Rep 0 (map_option (\<lambda>h. h - 1) hi) g r) # ks) i
                (clear_caps (groups r) cs) of
           Some m \<Rightarrow> Some m
         | None \<Rightarrow> run ic s ks i cs)
      else
        (case run ic s ks i cs of
           Some m \<Rightarrow> Some m
         | None \<Rightarrow>
             run ic s (R r # Progress i # R (Rep 0 (map_option (\<lambda>h. h - 1) hi) g r) # ks) i
               (clear_caps (groups r) cs)))"
  by pat_completeness auto
termination
  by (relation "inv_image (less_than <*lex*> less_than)
        (\<lambda>(ic, s, ks, i, cs). (length s - i, steps_weight ks i))")
     (auto simp: backref_at_def)

text \<open>
  \<^verbatim>\<open>RegExpBuiltinExec\<close>: the first position at or after \<open>k\<close> where the expression
  matches, with the end of the match and the captures; \<open>n\<close> counts the positions that
  remain after \<open>k\<close>.
\<close>

fun exec_from :: "bool \<Rightarrow> regex \<Rightarrow> string \<Rightarrow> nat \<Rightarrow> nat \<Rightarrow> (nat \<times> nat \<times> caps) option" where
  "exec_from ic r s 0 k =
     (case run ic s [R r] k [] of None \<Rightarrow> None | Some (e, cs) \<Rightarrow> Some (k, e, cs))"
| "exec_from ic r s (Suc n) k =
     (case run ic s [R r] k [] of
        None \<Rightarrow> exec_from ic r s n (Suc k)
      | Some (e, cs) \<Rightarrow> Some (k, e, cs))"

definition exec :: "bool \<Rightarrow> regex \<Rightarrow> string \<Rightarrow> (nat \<times> nat \<times> caps) option" where
  "exec ic r s = exec_from ic r s (length s) 0"

text \<open>\<^verbatim>\<open>regex.test(s)\<close> for an expression without the flag \<^verbatim>\<open>g\<close>.\<close>

definition test :: "bool \<Rightarrow> regex \<Rightarrow> string \<Rightarrow> bool" where
  "test ic r s = (exec ic r s \<noteq> None)"

text \<open>
  The loop of a replacement or a search with the flag \<^verbatim>\<open>g\<close>: \<^verbatim>\<open>lastIndex\<close> starts at
  0; each round takes the first match at or after \<^verbatim>\<open>lastIndex\<close> and moves
  \<^verbatim>\<open>lastIndex\<close> to the end of the match, one further when the match is empty.
  \<open>matches_scan ic r s n k li\<close> walks the start positions \<open>k\<close> upwards (\<open>n\<close> of them
  remain after \<open>k\<close>) and lists the matches as (start, end, captures).
\<close>

fun matches_scan :: "bool \<Rightarrow> regex \<Rightarrow> string \<Rightarrow> nat \<Rightarrow> nat \<Rightarrow> nat \<Rightarrow> (nat \<times> nat \<times> caps) list" where
  "matches_scan ic r s 0 k li =
     (if k < li then []
      else (case run ic s [R r] k [] of None \<Rightarrow> [] | Some (e, cs) \<Rightarrow> [(k, e, cs)]))"
| "matches_scan ic r s (Suc n) k li =
     (if k < li then matches_scan ic r s n (Suc k) li
      else (case run ic s [R r] k [] of
              None \<Rightarrow> matches_scan ic r s n (Suc k) li
            | Some (e, cs) \<Rightarrow>
                (k, e, cs) # matches_scan ic r s n (Suc k) (if e = k then Suc k else e)))"

definition all_matches :: "bool \<Rightarrow> regex \<Rightarrow> string \<Rightarrow> (nat \<times> nat \<times> caps) list" where
  "all_matches ic r s = matches_scan ic r s (length s) 0 0"

text \<open>\<^verbatim>\<open>s.match(regex)\<close> with the flag \<^verbatim>\<open>g\<close>: the matched texts; \<open>None\<close> is \<^verbatim>\<open>null\<close>.\<close>

fun matched_texts :: "string \<Rightarrow> (nat \<times> nat \<times> caps) list \<Rightarrow> string list" where
  "matched_texts s [] = []"
| "matched_texts s ((b, e, cs) # ms) = substring s b e # matched_texts s ms"

definition match_g :: "bool \<Rightarrow> regex \<Rightarrow> string \<Rightarrow> string list option" where
  "match_g ic r s =
     (case all_matches ic r s of
        [] \<Rightarrow> None
      | m # ms \<Rightarrow> Some (matched_texts s (m # ms)))"

text \<open>
  \<^verbatim>\<open>s.replace(regex, f)\<close>: \<open>f\<close> gets the matched text and the text of the first capture
  (\<open>None\<close> for a group that took no part) and gives the replacement. With the flag
  \<^verbatim>\<open>g\<close> every match of the loop is replaced, without it the first one only.
\<close>

definition capture :: "string \<Rightarrow> caps \<Rightarrow> nat \<Rightarrow> string option" where
  "capture s cs k = (case map_of cs k of None \<Rightarrow> None | Some (a, b) \<Rightarrow> Some (substring s a b))"

fun splice :: "string \<Rightarrow> (string \<Rightarrow> string option \<Rightarrow> string) \<Rightarrow> nat \<Rightarrow> (nat \<times> nat \<times> caps) list \<Rightarrow> string" where
  "splice s f p [] = drop p s"
| "splice s f p ((b, e, cs) # ms) =
     substring s p b @ f (substring s b e) (capture s cs 1) @ splice s f e ms"

definition replace_g :: "bool \<Rightarrow> regex \<Rightarrow> (string \<Rightarrow> string option \<Rightarrow> string) \<Rightarrow> string \<Rightarrow> string" where
  "replace_g ic r f s = splice s f 0 (all_matches ic r s)"

definition replace_first :: "bool \<Rightarrow> regex \<Rightarrow> (string \<Rightarrow> string option \<Rightarrow> string) \<Rightarrow> string \<Rightarrow> string" where
  "replace_first ic r f s =
     (case exec ic r s of None \<Rightarrow> s | Some m \<Rightarrow> splice s f 0 [m])"

text \<open>A replacement text without \<^verbatim>\<open>$\<close>, and the replacement \<^verbatim>\<open>'$1'\<close>.\<close>

definition const_repl :: "string \<Rightarrow> string \<Rightarrow> string option \<Rightarrow> string" where
  "const_repl t m g = t"

definition group1_repl :: "string \<Rightarrow> string option \<Rightarrow> string" where
  "group1_repl m g = (case g of None \<Rightarrow> [] | Some t \<Rightarrow> t)"

subsection \<open>Reading a pattern: \<^verbatim>\<open>new RegExp(pattern)\<close>\<close>

text \<open>
  \<^verbatim>\<open>new RegExp\<close> raises \<^verbatim>\<open>SyntaxError\<close> on a text that is not a pattern. The reader
  below follows the pattern grammar of ECMAScript (with Annex B, no flag \<^verbatim>\<open>u\<close>) for
  literal characters, \<^verbatim>\<open>. ^ $ |\<close>, groups \<^verbatim>\<open>( )\<close> and \<^verbatim>\<open>(?: )\<close>, classes with ranges,
  the quantifiers \<^verbatim>\<open>* + ? {n} {n,} {n,m}\<close> and their lazy forms, and the escapes
  \<^verbatim>\<open>\d \D \w \W \s \S \b \B \t \n \v \f \r\<close> and identity escapes. A pattern with a
  construct outside this fragment (look-around, named groups, \<^verbatim>\<open>\c \x \u \k \p\<close>, a numeric
  escape) gives \<open>NotModelled\<close>.
\<close>

datatype regexp_error = SyntaxError | NotModelled

definition BS :: char where
  "BS = CHR 0x5C"

datatype catom = ADash | AChar char | AEsc citem | ABad

definition class_escape :: "char \<Rightarrow> catom" where
  "class_escape e =
     (if e = CHR ''d'' then AEsc CDigit else if e = CHR ''D'' then AEsc CNotDigit
      else if e = CHR ''w'' then AEsc CWord else if e = CHR ''W'' then AEsc CNotWord
      else if e = CHR ''s'' then AEsc CSpace else if e = CHR ''S'' then AEsc CNotSpace
      else if e = CHR ''b'' then AChar (CHR 0x08)
      else if e = CHR ''t'' then AChar (CHR 0x09) else if e = CHR ''n'' then AChar (CHR 0x0A)
      else if e = CHR ''v'' then AChar (CHR 0x0B) else if e = CHR ''f'' then AChar (CHR 0x0C)
      else if e = CHR ''r'' then AChar (CHR 0x0D)
      else if isDigit e \<or> e \<in> set ''cxukpP'' then ABad
      else AChar e)"

text \<open>The atoms of a class up to its closing bracket, and the number of characters read.\<close>

fun class_atoms :: "string \<Rightarrow> (catom list \<times> nat) option" where
  "class_atoms [] = None"
| "class_atoms (c # cs) =
     (if c = CHR '']'' then Some ([], 1)
      else if c = BS then
        (case cs of
           [] \<Rightarrow> None
         | e # cs' \<Rightarrow> map_option (\<lambda>(as, k). (class_escape e # as, k + 2)) (class_atoms cs'))
      else map_option (\<lambda>(as, k). ((if c = CHR ''-'' then ADash else AChar c) # as, k + 1))
             (class_atoms cs))"

definition atom_item :: "catom \<Rightarrow> citem" where
  "atom_item a = (case a of ADash \<Rightarrow> CChar (CHR ''-'') | AChar c \<Rightarrow> CChar c | AEsc it \<Rightarrow> it | ABad \<Rightarrow> CChar (CHR ''-''))"

definition atom_char :: "catom \<Rightarrow> char option" where
  "atom_char a = (case a of ADash \<Rightarrow> Some (CHR ''-'') | AChar c \<Rightarrow> Some c | AEsc it \<Rightarrow> None | ABad \<Rightarrow> None)"

text \<open>
  Class ranges: an atom, a dash and a further atom make a range; its bounds must be in
  order. When one side is a class escape the three stand for themselves (Annex B).
\<close>

fun class_items :: "catom list \<Rightarrow> regexp_error + citem list" where
  "class_items [] = Inr []"
| "class_items (a # ADash # b # as) =
     (case class_items as of
        Inl e \<Rightarrow> Inl e
      | Inr its \<Rightarrow>
          (case (atom_char a, atom_char b) of
             (Some x, Some y) \<Rightarrow> if charCode y < charCode x then Inl SyntaxError else Inr (CRange x y # its)
           | _ \<Rightarrow> Inr (atom_item a # CChar (CHR ''-'') # atom_item b # its)))"
| "class_items (a # as) =
     (case class_items as of Inl e \<Rightarrow> Inl e | Inr its \<Rightarrow> Inr (atom_item a # its))"

definition read_class :: "string \<Rightarrow> regexp_error + (regex \<times> nat)" where
  "read_class cs =
     (let neg = (case cs of [] \<Rightarrow> False | c # _ \<Rightarrow> c = CHR ''^'');
          body = (if neg then tl cs else cs)
      in case class_atoms body of
           None \<Rightarrow> Inl SyntaxError
         | Some (as, k) \<Rightarrow>
             if ABad \<in> set as then Inl NotModelled
             else (case class_items as of
                     Inl e \<Rightarrow> Inl e
                   | Inr its \<Rightarrow> Inr (Class neg its, if neg then Suc k else k)))"

text \<open>
  A braced quantifier after \<^verbatim>\<open>{\<close>: \<^verbatim>\<open>n}\<close>, \<^verbatim>\<open>n,}\<close> or \<^verbatim>\<open>n,m}\<close>, with the number of
  characters read. Anything else leaves the brace a literal character.
\<close>

definition digit_val :: "char \<Rightarrow> nat" where
  "digit_val d = (case map_of (zip ''0123456789'' [0, 1, 2, 3, 4, 5, 6, 7, 8, 9]) d of None \<Rightarrow> 0 | Some n \<Rightarrow> n)"

definition digits_val :: "string \<Rightarrow> nat" where
  "digits_val ds = foldl (\<lambda>n d. 10 * n + digit_val d) 0 ds"

definition read_brace :: "string \<Rightarrow> (nat \<times> nat option \<times> nat) option" where
  "read_brace cs =
     (let ds = takeWhile isDigit cs; r1 = dropWhile isDigit cs
      in if ds = [] then None
         else (case r1 of
                 [] \<Rightarrow> None
               | c # r2 \<Rightarrow>
                   if c = CHR ''}'' then Some (digits_val ds, Some (digits_val ds), length ds + 1)
                   else if c = CHR '','' then
                     (let es = takeWhile isDigit r2; r3 = dropWhile isDigit r2
                      in case r3 of
                           [] \<Rightarrow> None
                         | d # _ \<Rightarrow>
                             if d \<noteq> CHR ''}'' then None
                             else if es = [] then Some (digits_val ds, None, length ds + 2)
                             else Some (digits_val ds, Some (digits_val es), length ds + length es + 2))
                   else None))"

text \<open>
  The reader keeps one frame for each group that is open: the number of a capturing
  group, the alternatives that are complete, and the terms of the current alternative
  (latest first), each with a mark that tells whether a quantifier may follow it.
\<close>

type_synonym frame = "nat option \<times> regex list \<times> (regex \<times> bool) list"

definition close_frame :: "frame \<Rightarrow> regex" where
  "close_frame fr =
     (case fr of (g, alts, terms) \<Rightarrow>
        (let body = Alts (alts @ [Seqs (rev (map fst terms))])
         in case g of None \<Rightarrow> body | Some k \<Rightarrow> Group k body))"

definition add_term :: "regex \<Rightarrow> bool \<Rightarrow> frame \<Rightarrow> frame" where
  "add_term r q fr = (case fr of (g, alts, terms) \<Rightarrow> (g, alts, (r, q) # terms))"

definition quantify :: "nat \<Rightarrow> nat option \<Rightarrow> bool \<Rightarrow> frame \<Rightarrow> regexp_error + frame" where
  "quantify lo hi greedy fr =
     (case fr of (g, alts, terms) \<Rightarrow>
        (case terms of
           [] \<Rightarrow> Inl SyntaxError
         | (r, q) # ts \<Rightarrow>
             if \<not> q then Inl SyntaxError
             else if (case hi of None \<Rightarrow> False | Some h \<Rightarrow> h < lo) then Inl SyntaxError
             else Inr (g, alts, (Rep lo hi greedy r, False) # ts)))"

definition is_lazy :: "string \<Rightarrow> bool" where
  "is_lazy cs = (case cs of [] \<Rightarrow> False | c # _ \<Rightarrow> c = CHR ''?'')"

definition escape_term :: "char \<Rightarrow> regexp_error + (regex \<times> bool)" where
  "escape_term e =
     (if e = CHR ''b'' then Inr (WordB, False) else if e = CHR ''B'' then Inr (NotWordB, False)
      else if e = CHR ''d'' then Inr (Class False [CDigit], True)
      else if e = CHR ''D'' then Inr (Class False [CNotDigit], True)
      else if e = CHR ''w'' then Inr (Class False [CWord], True)
      else if e = CHR ''W'' then Inr (Class False [CNotWord], True)
      else if e = CHR ''s'' then Inr (Class False [CSpace], True)
      else if e = CHR ''S'' then Inr (Class False [CNotSpace], True)
      else if e = CHR ''t'' then Inr (Lit (CHR 0x09), True)
      else if e = CHR ''n'' then Inr (Lit (CHR 0x0A), True)
      else if e = CHR ''v'' then Inr (Lit (CHR 0x0B), True)
      else if e = CHR ''f'' then Inr (Lit (CHR 0x0C), True)
      else if e = CHR ''r'' then Inr (Lit (CHR 0x0D), True)
      else if isDigit e \<or> e \<in> set ''cxukpP'' then Inl NotModelled
      else Inr (Lit e, True))"

text \<open>
  One step of the reader on the character \<open>c\<close> with the text \<open>cs\<close> after it: the new
  state and the number of characters of \<open>cs\<close> that the step has read as well.
\<close>

type_synonym reader = "frame list \<times> frame \<times> nat"

definition read_group :: "reader \<Rightarrow> string \<Rightarrow> regexp_error + (reader \<times> nat)" where
  "read_group rd cs =
     (case rd of (st, fr, n) \<Rightarrow>
        (case cs of
           [] \<Rightarrow> Inl SyntaxError
         | d # ds \<Rightarrow>
             if d = CHR ''?'' then
               (case ds of
                  [] \<Rightarrow> Inl SyntaxError
                | e # es \<Rightarrow>
                    if e = CHR '':'' then Inr ((fr # st, (None, [], []), n), 2)
                    else if e \<in> set ''=!<'' then Inl NotModelled
                    else Inl SyntaxError)
             else Inr ((fr # st, (Some n, [], []), Suc n), 0)))"

definition read_quantifier :: "reader \<Rightarrow> nat \<Rightarrow> nat option \<Rightarrow> string \<Rightarrow> nat \<Rightarrow> regexp_error + (reader \<times> nat)" where
  "read_quantifier rd lo hi cs k =
     (case rd of (st, fr, n) \<Rightarrow>
        (case quantify lo hi (\<not> is_lazy (drop k cs)) fr of
           Inl e \<Rightarrow> Inl e
         | Inr fr' \<Rightarrow> Inr ((st, fr', n), if is_lazy (drop k cs) then Suc k else k)))"

definition read_step :: "reader \<Rightarrow> char \<Rightarrow> string \<Rightarrow> regexp_error + (reader \<times> nat)" where
  "read_step rd c cs =
     (case rd of (st, fr, n) \<Rightarrow>
       (if c = CHR ''('' then read_group rd cs
        else if c = CHR '')'' then
          (case st of
             [] \<Rightarrow> Inl SyntaxError
           | parent # st' \<Rightarrow> Inr ((st', add_term (close_frame fr) True parent, n), 0))
        else if c = CHR ''|'' then
          (case fr of (g, alts, terms) \<Rightarrow>
             Inr ((st, (g, alts @ [Seqs (rev (map fst terms))], []), n), 0))
        else if c = CHR ''*'' then read_quantifier rd 0 None cs 0
        else if c = CHR ''+'' then read_quantifier rd 1 None cs 0
        else if c = CHR ''?'' then read_quantifier rd 0 (Some 1) cs 0
        else if c = CHR ''{'' then
          (case read_brace cs of
             None \<Rightarrow> Inr ((st, add_term (Lit c) True fr, n), 0)
           | Some (lo, hi, k) \<Rightarrow> read_quantifier rd lo hi cs k)
        else if c = CHR ''['' then
          (case read_class cs of
             Inl e \<Rightarrow> Inl e
           | Inr (r, k) \<Rightarrow> Inr ((st, add_term r True fr, n), k))
        else if c = BS then
          (case cs of
             [] \<Rightarrow> Inl SyntaxError
           | e # es \<Rightarrow>
               (case escape_term e of
                  Inl err \<Rightarrow> Inl err
                | Inr (r, q) \<Rightarrow> Inr ((st, add_term r q fr, n), 1)))
        else if c = CHR ''^'' then Inr ((st, add_term Bol False fr, n), 0)
        else if c = CHR ''$'' then Inr ((st, add_term Eol False fr, n), 0)
        else if c = CHR ''.'' then Inr ((st, add_term Dot True fr, n), 0)
        else Inr ((st, add_term (Lit c) True fr, n), 0)))"

text \<open>At the end of the text every group must be closed.\<close>

fun read_pattern :: "reader \<Rightarrow> string \<Rightarrow> regexp_error + regex" where
  "read_pattern rd [] =
     (case rd of (st, fr, n) \<Rightarrow> if st = [] then Inr (close_frame fr) else Inl SyntaxError)"
| "read_pattern rd (c # cs) =
     (case read_step rd c cs of
        Inl e \<Rightarrow> Inl e
      | Inr (rd', k) \<Rightarrow> read_pattern rd' (drop k cs))"

definition RegExp_new :: "string \<Rightarrow> regexp_error + regex" where
  "RegExp_new p = read_pattern ([], (None, [], []), 1) p"

section \<open>The tables of \<^verbatim>\<open>FuzzyMatcher\<close>\<close>

definition stopWords :: "string list" where
  "stopWords =
     [''the'', ''a'', ''an'', ''and'', ''or'', ''but'', ''in'', ''on'', ''at'', ''to'', ''for'', ''of'',
      ''with'', ''by'', ''is'', ''are'', ''was'', ''were'',
      ''this'', ''that'', ''these'', ''those'', ''be'', ''been'', ''being'', ''have'', ''has'', ''had'',
      ''do'', ''does'', ''did'', ''will'', ''would'',
      ''could'', ''should'', ''may'', ''might'', ''must'', ''can'', ''shall'', ''de'', ''la'', ''le'',
      ''el'', ''les'', ''los'', ''las'', ''un'', ''une'',
      ''der'', ''die'', ''das'', ''ein'', ''eine'', ''il'', ''lo'', ''la'', ''gli'', ''le'', ''i'']"

text \<open>
  \<^verbatim>\<open>releasePatterns\<close>, in the order of the source; each is used with the flag \<^verbatim>\<open>g\<close>, and
  the second component tells whether it also carries the flag \<^verbatim>\<open>i\<close>.
\<close>

definition releasePatterns :: "(bool \<times> regex) list" where
  "releasePatterns =
     [(True, Seqs [WordB,
         Group 1 (Alts (map Lits [''yify'', ''rarbg'', ''etrg'', ''ettv'', ''x264'', ''h264'', ''h265'',
           ''hevc'', ''xvid'', ''divx'', ''ac3'', ''dts'', ''bluray'', ''brrip'', ''webrip'', ''hdtv'',
           ''dvdrip'', ''720p'', ''1080p'', ''2160p'', ''4k'', ''uhd''])),
         WordB]),
      (True, Seqs [WordB,
         Group 1 (Alts [Lits ''internal'', Lits ''proper'', Lits ''repack'', Lits ''dubbed'',
           Lits ''subbed'', Lits ''unrated'', Lits ''extended'',
           Seqs [Lits ''director'', Opt (Lit (CHR ''s'')), Dot, Lits ''cut''],
           Lits ''theatrical'', Lits ''imax'', Lits ''limited'', Lits ''festival'', Lits ''screener'',
           Lits ''cam'', Lits ''ts'', Lits ''tc'']),
         WordB]),
      (True, Seqs [WordB,
         Group 1 (Alts (map Lits [''aac'', ''mp3'', ''flac'', ''dts-hd'', ''truehd'', ''atmos'', ''dolby'',
           ''surround'', ''5.1'', ''7.1''])),
         WordB]),
      (True, Seqs [WordB,
         Group 1 (Alts [Lits ''multi'', Lits ''dual'', Lits ''audio'',
           Seqs [Lits ''sub'', Opt (Lit (CHR ''s''))],
           Seqs [Lits ''hard'', Opt (Lit (CHR ''.'')), Lits ''coded''],
           Lits ''hc'', Lits ''forced'']),
         WordB]),
      (False, Seqs [Lit (CHR ''[''), StarLazy Dot, Lit (CHR '']'')]),
      (False, Seqs [Lit (CHR ''{''), StarLazy Dot, Lit (CHR ''}'')]),
      (True, Seqs [Lit (CHR ''(''), StarLazy Dot,
         Group 1 (Alts [Lits ''720p'', Lits ''1080p'', Lits ''2160p'', Lits ''4k'', Lits ''x264'',
           Lits ''h264'', Lits ''h265'', Lits ''bluray'', Lits ''webrip'', Lits ''hdtv'', Lits ''dvdrip'',
           Lits ''year'', Rep 4 (Some 4) True Digit]),
         StarLazy Dot, Lit (CHR '')'')]),
      (False, Seqs [Lit (CHR ''-''), Plus (Class False [CWord]), Eol]),
      (True, Seqs [Lit (CHR ''.''),
         Group 1 (Alts (map Lits [''mkv'', ''mp4'', ''avi'', ''mov'', ''wmv'', ''flv'', ''webm'', ''m4v''])),
         Eol])]"

text \<open>
  \<^verbatim>\<open>abbreviations\<close>. No key holds a character that the escaping step
  \<^verbatim>\<open>abbrev.replace(/[.*+?^${}()|[\]\\]/g, '\\$&')\<close> changes or that the pattern grammar
  reads as other than itself, so \<^verbatim>\<open>new RegExp(`\\b${...}\\b`, 'gi')\<close> is the key between
  two word boundaries.
\<close>

definition abbreviations :: "(string \<times> string) list" where
  "abbreviations =
     [(''vs'', ''versus''), (''pt'', ''part''), (''vol'', ''volume''), (''ep'', ''episode''),
      (''ch'', ''chapter''), (''no'', ''number''), (''nr'', ''number''), (''num'', ''number''),
      (''&'', ''and''), (''w/'', ''with''), (''wo/'', ''without'')]"

text \<open>
  \<^verbatim>\<open>charMap\<close>, by code unit: U+00E0 .. U+00E5 to \<^verbatim>\<open>a\<close>, U+00E6 to \<^verbatim>\<open>ae\<close>, and so on.
  The last entry of the source (U+0153 to \<^verbatim>\<open>oe\<close>) is outside U+0000 .. U+00FF.
\<close>

definition charMap :: "(char \<times> string) list" where
  "charMap =
     [(CHR 0xE0, ''a''), (CHR 0xE1, ''a''), (CHR 0xE2, ''a''), (CHR 0xE3, ''a''), (CHR 0xE4, ''a''),
      (CHR 0xE5, ''a''), (CHR 0xE6, ''ae''),
      (CHR 0xE7, ''c''), (CHR 0xE8, ''e''), (CHR 0xE9, ''e''), (CHR 0xEA, ''e''), (CHR 0xEB, ''e''),
      (CHR 0xEC, ''i''), (CHR 0xED, ''i''),
      (CHR 0xEE, ''i''), (CHR 0xEF, ''i''), (CHR 0xF1, ''n''), (CHR 0xF2, ''o''), (CHR 0xF3, ''o''),
      (CHR 0xF4, ''o''), (CHR 0xF5, ''o''),
      (CHR 0xF6, ''o''), (CHR 0xF8, ''o''), (CHR 0xF9, ''u''), (CHR 0xFA, ''u''), (CHR 0xFB, ''u''),
      (CHR 0xFC, ''u''), (CHR 0xFD, ''y''),
      (CHR 0xFF, ''y''), (CHR 0xDF, ''ss'')]"

section \<open>\<^verbatim>\<open>normalizeText\<close>\<close>

definition romanToNum :: "(string \<times> string) list" where
  "romanToNum =
     [(''i'', ''1''), (''ii'', ''2''), (''iii'', ''3''), (''iv'', ''4''), (''v'', ''5''), (''vi'', ''6''),
      (''vii'', ''7''), (''viii'', ''8''), (''ix'', ''9''), (''x'', ''10'')]"

text \<open>The callback of the Roman numeral step: \<^verbatim>\<open>romanToNum[roman.toLowerCase()] || match\<close>.\<close>

definition roman_repl :: "string \<Rightarrow> string option \<Rightarrow> string" where
  "roman_repl m g =
     (case g of
        None \<Rightarrow> m
      | Some roman \<Rightarrow> (case map_of romanToNum (toLowerCase roman) of None \<Rightarrow> m | Some d \<Rightarrow> d))"

text \<open>The three loops over the tables, each entry applied to the result of the one before.\<close>

fun expand_chars :: "(char \<times> string) list \<Rightarrow> string \<Rightarrow> string" where
  "expand_chars [] s = s"
| "expand_chars ((accented, plain) # m) s =
     expand_chars m (replace_g False (Lit accented) (const_repl plain) s)"

fun expand_abbreviations :: "(string \<times> string) list \<Rightarrow> string \<Rightarrow> string" where
  "expand_abbreviations [] s = s"
| "expand_abbreviations ((abbrev, expansion) # m) s =
     expand_abbreviations m
       (replace_g True (Seqs [WordB, Lits abbrev, WordB]) (const_repl expansion) s)"

fun strip_release :: "(bool \<times> regex) list \<Rightarrow> string \<Rightarrow> string" where
  "strip_release [] s = s"
| "strip_release ((ic, pattern) # ps) s =
     strip_release ps (replace_g ic pattern (const_repl '' '') s)"

definition roman_numerals :: "string \<Rightarrow> string" where
  "roman_numerals s =
     replace_g False
       (Seqs [WordB, Opt (Seqs [Lits ''part'', Plus Space]), Group 1 (Plus (OneOf ''ivx'')), WordB])
       roman_repl s"

text \<open>
  The four steps on special characters: \<^verbatim>\<open>/['']/g\<close> to nothing, \<^verbatim>\<open>/[^\w\s]/g\<close> to a
  space, \<^verbatim>\<open>/\s+/g\<close> to one space, \<^verbatim>\<open>trim()\<close>.
\<close>

definition strip_special :: "string \<Rightarrow> string" where
  "strip_special s =
     trim (replace_g False (Plus Space) (const_repl '' '')
       (replace_g False (Class True [CWord, CSpace]) (const_repl '' '')
         (replace_g False (Class False [CChar (CHR 0x27), CChar (CHR 0x27)]) (const_repl []) s)))"

text \<open>The last step: the words that are not empty and not stop words, joined by spaces.\<close>

fun keep_words :: "string list \<Rightarrow> string list" where
  "keep_words [] = []"
| "keep_words (word # ws) =
     (if 0 < length word \<and> word \<notin> set stopWords then word # keep_words ws else keep_words ws)"

definition remove_stop_words :: "string \<Rightarrow> string" where
  "remove_stop_words s = join_sp (keep_words (split_sp s))"

definition normalizeText :: "string \<Rightarrow> string" where
  "normalizeText text =
     (if text = [] then []
      else remove_stop_words (strip_special (roman_numerals (strip_release releasePatterns
             (expand_abbreviations abbreviations (expand_chars charMap (toLowerCase text)))))))"

section \<open>Similarity\<close>

subsection \<open>\<^verbatim>\<open>generatePhoneticCode\<close>\<close>

definition phoneticMap :: "(string \<times> string) list" where
  "phoneticMap =
     [(''ph'', ''f''), (''gh'', ''f''), (''ck'', ''k''), (''qu'', ''k''), (''x'', ''ks''),
      (''th'', ''t''), (''sh'', ''s''), (''ch'', ''s''), (''wh'', ''w'')]"

fun phonetic_replace :: "(string \<times> string) list \<Rightarrow> string \<Rightarrow> string" where
  "phonetic_replace [] s = s"
| "phonetic_replace ((from, to) # m) s =
     phonetic_replace m (replace_g False (Lits from) (const_repl to) s)"

text \<open>
  \<^verbatim>\<open>code[0] + code.slice(1).replace(/[aeiou]/g, '')\<close>; on the empty string
  \<^verbatim>\<open>code[0]\<close> is \<^verbatim>\<open>undefined\<close> and the sum is the text \<^verbatim>\<open>undefined\<close>.
\<close>

definition drop_vowels :: "string \<Rightarrow> string" where
  "drop_vowels code =
     (case code of
        [] \<Rightarrow> ''undefined''
      | c # cs \<Rightarrow> c # replace_g False (OneOf ''aeiou'') (const_repl []) cs)"

definition generatePhoneticCode :: "string \<Rightarrow> string" where
  "generatePhoneticCode word =
     (if word = [] then []
      else drop_vowels (phonetic_replace phoneticMap
             (replace_g False (Seqs [Group 1 Dot, Plus (Backref 1)]) group1_repl
                (toLowerCase word))))"

subsection \<open>The five measures\<close>

text \<open>
  \<^verbatim>\<open>distance\<close> is imported from the package \<^verbatim>\<open>fastest-levenshtein\<close>; it is the
  Levenshtein distance of two strings.
\<close>

fun distance :: "string \<Rightarrow> string \<Rightarrow> nat" where
  "distance [] t = length t"
| "distance s [] = length s"
| "distance (a # s) (b # t) =
     min (min (distance s (b # t) + 1) (distance (a # s) t + 1))
         (distance s t + (if a = b then 0 else 1))"

definition calculateLevenshteinSimilarity :: "string \<Rightarrow> string \<Rightarrow> real" where
  "calculateLevenshteinSimilarity str1 str2 =
     (if max (length str1) (length str2) = 0 then 1
      else 1 - real (distance str1 str2) / real (max (length str1) (length str2)))"

text \<open>Intersection over union of two \<^verbatim>\<open>Set\<close>s, the sets given by lists of their members.\<close>

definition set_ratio :: "'a list \<Rightarrow> 'a list \<Rightarrow> real" where
  "set_ratio xs ys = real (card (set xs \<inter> set ys)) / real (card (set xs \<union> set ys))"

definition calculateJaccardSimilarity :: "string \<Rightarrow> string \<Rightarrow> real" where
  "calculateJaccardSimilarity str1 str2 =
     (if card (set str1 \<union> set str2) = 0 then 0 else set_ratio str1 str2)"

text \<open>
  The inner loop of \<^verbatim>\<open>calculatePhoneticSimilarity\<close> looks for a word of \<^verbatim>\<open>words2\<close> with
  the code of \<^verbatim>\<open>word1\<close>; the outer loop counts the words of \<^verbatim>\<open>words1\<close> that have one.
\<close>

fun phonetic_partner :: "string \<Rightarrow> string list \<Rightarrow> bool" where
  "phonetic_partner code1 [] = False"
| "phonetic_partner code1 (word2 # ws) =
     (if code1 = generatePhoneticCode word2 \<and> 0 < length code1 then True
      else phonetic_partner code1 ws)"

fun phonetic_matches :: "string list \<Rightarrow> string list \<Rightarrow> nat" where
  "phonetic_matches [] words2 = 0"
| "phonetic_matches (word1 # ws) words2 =
     (if phonetic_partner (generatePhoneticCode word1) words2
      then Suc (phonetic_matches ws words2) else phonetic_matches ws words2)"

definition calculatePhoneticSimilarity :: "string \<Rightarrow> string \<Rightarrow> real" where
  "calculatePhoneticSimilarity str1 str2 =
     (if max (length (split_sp str1)) (length (split_sp str2)) = 0 then 0
      else real (phonetic_matches (split_sp str1) (split_sp str2))
           / real (max (length (split_sp str1)) (length (split_sp str2))))"

text \<open>
  \<^verbatim>\<open>generateNGrams\<close>: the text is padded with \<open>n - 1\<close> spaces on both sides and every
  window of \<open>n\<close> characters is taken.
\<close>

fun windows :: "nat \<Rightarrow> string \<Rightarrow> string list" where
  "windows n [] = (if n = 0 then [[]] else [])"
| "windows n (c # cs) = (if length (c # cs) < n then [] else take n (c # cs) # windows n cs)"

definition generateNGrams :: "string \<Rightarrow> nat \<Rightarrow> string list" where
  "generateNGrams str n = windows n (replicate (n - 1) (CHR '' '') @ str @ replicate (n - 1) (CHR '' ''))"

definition ngram_ratio :: "string list \<Rightarrow> string list \<Rightarrow> real" where
  "ngram_ratio ngrams1 ngrams2 =
     (if length ngrams1 = 0 \<and> length ngrams2 = 0 then 1
      else if length ngrams1 = 0 \<or> length ngrams2 = 0 then 0
      else set_ratio ngrams1 ngrams2)"

definition calculateNGramSimilarity :: "string \<Rightarrow> string \<Rightarrow> nat \<Rightarrow> real" where
  "calculateNGramSimilarity str1 str2 n = ngram_ratio (generateNGrams str1 n) (generateNGrams str2 n)"

text \<open>
  \<^verbatim>\<open>calculateWordSimilarity\<close>. \<open>exactMatches\<close> are the words of both lists. The inner loop
  looks, for a word of \<^verbatim>\<open>words1\<close>, for the best partner in \<^verbatim>\<open>words2\<close> that is neither an
  exact match nor used; the test on \<^verbatim>\<open>lengthRatio\<close> does not skip a pair of empty words
  (the ratio is \<^verbatim>\<open>NaN\<close> there). The outer loop adds up the similarities of the partners
  found; \<^verbatim>\<open>if (bestWord)\<close> does not hold for the empty word.
\<close>

definition exactMatches :: "string list \<Rightarrow> string list \<Rightarrow> string list" where
  "exactMatches words1 words2 = filter (\<lambda>x. x \<in> set words2) (remdups words1)"

definition too_different :: "string \<Rightarrow> string \<Rightarrow> bool" where
  "too_different word1 word2 =
     (max (length word1) (length word2) \<noteq> 0
      \<and> real (min (length word1) (length word2)) / real (max (length word1) (length word2)) < 0.5)"

fun best_partner :: "string \<Rightarrow> string list \<Rightarrow> string list \<Rightarrow> string list \<Rightarrow> real \<Rightarrow> string option
    \<Rightarrow> real \<times> string option" where
  "best_partner word1 [] exact used2 bestMatch bestWord = (bestMatch, bestWord)"
| "best_partner word1 (word2 # ws) exact used2 bestMatch bestWord =
     (if word2 \<in> set exact \<or> word2 \<in> set used2 then best_partner word1 ws exact used2 bestMatch bestWord
      else if too_different word1 word2 then best_partner word1 ws exact used2 bestMatch bestWord
      else if calculateLevenshteinSimilarity word1 word2 > bestMatch
              \<and> calculateLevenshteinSimilarity word1 word2 > 0.7
      then best_partner word1 ws exact used2 (calculateLevenshteinSimilarity word1 word2) (Some word2)
      else best_partner word1 ws exact used2 bestMatch bestWord)"

fun partial_loop :: "string list \<Rightarrow> string list \<Rightarrow> string list \<Rightarrow> string list \<Rightarrow> real \<Rightarrow> real" where
  "partial_loop [] words2 exact used2 partialMatches = partialMatches"
| "partial_loop (word1 # ws) words2 exact used2 partialMatches =
     (if word1 \<in> set exact then partial_loop ws words2 exact used2 partialMatches
      else (case best_partner word1 words2 exact used2 0 None of
              (bestMatch, None) \<Rightarrow> partial_loop ws words2 exact used2 partialMatches
            | (bestMatch, Some bestWord) \<Rightarrow>
                if bestWord = [] then partial_loop ws words2 exact used2 partialMatches
                else partial_loop ws words2 exact (bestWord # used2) (partialMatches + bestMatch)))"

definition calculateWordSimilarity :: "string list \<Rightarrow> string list \<Rightarrow> real" where
  "calculateWordSimilarity words1 words2 =
     (if length words1 = 0 \<and> length words2 = 0 then 1
      else if length words1 = 0 \<or> length words2 = 0 then 0
      else real (length (exactMatches words1 words2)) / real (max (length words1) (length words2))
           + partial_loop words1 words2 (exactMatches words1 words2) [] 0
               / real (max (length words1) (length words2)) * 0.7)"

subsection \<open>\<^verbatim>\<open>calculateSimilarity\<close>\<close>

text \<open>The weighted sum of the five measures on the two normalised texts.\<close>

definition weightedScore :: "string \<Rightarrow> string \<Rightarrow> real" where
  "weightedScore norm1 norm2 =
     calculateLevenshteinSimilarity norm1 norm2 * 0.25
     + calculateJaccardSimilarity norm1 norm2 * 0.20
     + calculatePhoneticSimilarity norm1 norm2 * 0.15
     + calculateWordSimilarity (split_sp norm1) (split_sp norm2) * 0.25
     + calculateNGramSimilarity norm1 norm2 2 * 0.15"

text \<open>The part of \<^verbatim>\<open>calculateSimilarity\<close> after the two texts are normalised.\<close>

definition similarity_of_norms :: "string \<Rightarrow> string \<Rightarrow> real" where
  "similarity_of_norms norm1 norm2 =
     (if norm1 = norm2 then 1
      else if length norm1 = 0 \<or> length norm2 = 0 then 0
      else if includes_str norm1 norm2 \<or> includes_str norm2 norm1 then
        0.85 + 0.15 * (real (length (if length norm1 \<le> length norm2 then norm1 else norm2))
                       / real (length (if length norm1 > length norm2 then norm1 else norm2)))
      else min 1 (weightedScore norm1 norm2))"

definition calculateSimilarity :: "string \<Rightarrow> string \<Rightarrow> real" where
  "calculateSimilarity str1 str2 =
     (if str1 = [] \<or> str2 = [] then 0
      else similarity_of_norms (normalizeText str1) (normalizeText str2))"

section \<open>Numbers and paths\<close>

text \<open>
  A number that comes out of \<^verbatim>\<open>parseInt\<close> is an integer or \<^verbatim>\<open>NaN\<close> (\<open>None\<close>). The model
  keeps the integer exactly, as JavaScript does below \<open>2^53\<close>. \<^verbatim>\<open>parseInt(s)\<close> skips
  white space, reads a sign and the prefix \<^verbatim>\<open>0x\<close>, then the longest run of digits.
\<close>

definition hex_val :: "char \<Rightarrow> nat option" where
  "hex_val c =
     map_of (zip ''0123456789abcdefABCDEF''
               [0, 1, 2, 3, 4, 5, 6, 7, 8, 9, 10, 11, 12, 13, 14, 15, 10, 11, 12, 13, 14, 15]) c"

definition isHexDigit :: "char \<Rightarrow> bool" where
  "isHexDigit c = (hex_val c \<noteq> None)"

definition hex_digits_val :: "string \<Rightarrow> nat" where
  "hex_digits_val ds = foldl (\<lambda>n d. 16 * n + (case hex_val d of None \<Rightarrow> 0 | Some v \<Rightarrow> v)) 0 ds"

definition parse_magnitude :: "string \<Rightarrow> nat option" where
  "parse_magnitude t =
     (if startsWith t ''0x'' \<or> startsWith t ''0X'' then
        (if takeWhile isHexDigit (drop 2 t) = [] then None
         else Some (hex_digits_val (takeWhile isHexDigit (drop 2 t))))
      else if takeWhile isDigit t = [] then None
      else Some (digits_val (takeWhile isDigit t)))"

definition parse_signed :: "string \<Rightarrow> int option" where
  "parse_signed t =
     (case t of
        [] \<Rightarrow> None
      | c # cs \<Rightarrow>
          if c = CHR ''-'' then (case parse_magnitude cs of None \<Rightarrow> None | Some n \<Rightarrow> Some (- int n))
          else if c = CHR ''+'' then (case parse_magnitude cs of None \<Rightarrow> None | Some n \<Rightarrow> Some (int n))
          else (case parse_magnitude t of None \<Rightarrow> None | Some n \<Rightarrow> Some (int n)))"

definition parseInt :: "string \<Rightarrow> int option" where
  "parseInt s = parse_signed (dropWhile isSpace s)"

text \<open>\<^verbatim>\<open>n.toString()\<close> and \<^verbatim>\<open>s.padStart(2, '0')\<close>.\<close>

definition digit_char :: "nat \<Rightarrow> char" where
  "digit_char d = ''0123456789'' ! d"

function show_nat :: "nat \<Rightarrow> string" where
  "show_nat n = (if n < 10 then [digit_char n] else show_nat (n div 10) @ [digit_char (n mod 10)])"
  by pat_completeness auto
termination
  by (relation "measure id") auto

definition toString :: "int option \<Rightarrow> string" where
  "toString x =
     (case x of
        None \<Rightarrow> ''NaN''
      | Some n \<Rightarrow> if n < 0 then CHR ''-'' # show_nat (nat (- n)) else show_nat (nat n))"

definition padStart2 :: "string \<Rightarrow> string" where
  "padStart2 s = replicate (2 - length s) (CHR ''0'') @ s"

text \<open>
  \<^verbatim>\<open>path.basename(filename, path.extname(filename))\<close> of Node.js (POSIX): the last part
  of the path, trailing slashes apart, without its extension. The extension starts at
  the last dot of that part; a part without a dot, with its only dot in front, or equal
  to \<^verbatim>\<open>..\<close> has none.
\<close>

definition last_part :: "string \<Rightarrow> string" where
  "last_part p =
     rev (takeWhile (\<lambda>c. c \<noteq> CHR ''/'') (dropWhile (\<lambda>c. c = CHR ''/'') (rev p)))"

definition basename_without_ext :: "string \<Rightarrow> string" where
  "basename_without_ext filename =
     (if CHR ''.'' \<notin> set (last_part filename) \<or> last_part filename = ''..'' then last_part filename
      else if length (dropWhile (\<lambda>c. c \<noteq> CHR ''.'') (rev (last_part filename))) = 1
      then last_part filename
      else rev (tl (dropWhile (\<lambda>c. c \<noteq> CHR ''.'') (rev (last_part filename)))))"

section \<open>Match results\<close>

datatype method_tag =
    direct_imdb | fuzzy_imdb_exact_length | imdb_substring | imdb_partial | imdb_with_separator
  | no_imdb_match
  | no_title | enhanced_title_match | below_threshold
  | exact_episode | fuzzy_episode_exact | fuzzy_episode_close | fuzzy_season_only
  | episode_only_s1 | season_pack | no_match
  | filename_analysis
  | multi_strategy | series_combined | series_imdb_weighted | none

text \<open>
  A match result; the fields that only serve the log (\<^verbatim>\<open>pattern\<close>, \<^verbatim>\<open>details\<close>,
  \<^verbatim>\<open>indicators\<close>, \<^verbatim>\<open>strategies\<close>) are left out.
\<close>

record match_result =
  score :: real
  methodTag :: method_tag

definition result :: "real \<Rightarrow> method_tag \<Rightarrow> match_result" where
  "result sc m = \<lparr>score = sc, methodTag = m\<rparr>"

section \<open>\<^verbatim>\<open>extractYear\<close> and \<^verbatim>\<open>extractTitle\<close>\<close>

text \<open>\<^verbatim>\<open>/\b(19[2-9]\d|20[0-5]\d)\b/g\<close> and \<^verbatim>\<open>/\d{3,4}p/i\<close>.\<close>

definition year_pattern :: regex where
  "year_pattern =
     Seqs [WordB,
       Group 1 (Alt (Seqs [Lits ''19'', Class False [CRange (CHR ''2'') (CHR ''9'')], Digit])
                    (Seqs [Lits ''20'', Class False [CRange (CHR ''0'') (CHR ''5'')], Digit])),
       WordB]"

definition resolution_pattern :: regex where
  "resolution_pattern = Seqs [Between 3 4 Digit, Lit (CHR ''p'')]"

text \<open>
  The text around a year: ten characters before the first place where the year occurs
  in the file name, the year, and the characters up to the twentieth after its start.
\<close>

definition year_context :: "string \<Rightarrow> string \<Rightarrow> string" where
  "year_context filename year =
     (case indexOf filename year of
        None \<Rightarrow> year @ substring filename 3 19
      | Some yearIndex \<Rightarrow>
          substring filename (yearIndex - 10) yearIndex @ year
          @ substring filename (yearIndex + 4) (yearIndex + 20))"

definition release_year :: "string \<Rightarrow> string \<Rightarrow> bool" where
  "release_year filename year =
     (case parseInt year of
        None \<Rightarrow> False
      | Some yearNum \<Rightarrow>
          1920 \<le> yearNum \<and> yearNum \<le> 2030
          \<and> \<not> test True resolution_pattern (year_context filename year))"

fun first_release_year :: "string \<Rightarrow> string list \<Rightarrow> string option" where
  "first_release_year filename [] = None"
| "first_release_year filename (year # ys) =
     (if release_year filename year then Some year else first_release_year filename ys)"

definition extractYear :: "string \<Rightarrow> string option" where
  "extractYear filename =
     (case match_g False year_pattern filename of
        None \<Rightarrow> None
      | Some [] \<Rightarrow> None
      | Some (y # ys) \<Rightarrow>
          (case first_release_year filename (y # ys) of
             Some year \<Rightarrow> Some year
           | None \<Rightarrow> Some y))"

text \<open>
  The patterns of \<^verbatim>\<open>extractTitle\<close>, in the order of the source, with the flag \<^verbatim>\<open>i\<close>
  where the source has it; each replaces its first match by the empty text.
\<close>

definition Word :: "string \<Rightarrow> regex" where
  "Word w = Seqs [WordB, Lits w, WordB]"

definition to_end :: regex where
  "to_end = Seqs [Star Dot, Eol]"

definition prefix_patterns :: "(bool \<times> regex) list" where
  "prefix_patterns =
     [(True, Seqs [Lit (CHR ''.''), Group 1 (Alts (map Lits [''srt'', ''vtt'', ''ass'', ''ssa'', ''sub''])), Eol]),
      (True, Seqs [Bol, Group 1 (Alts (map Lits [''www.'', ''download.'', ''get.'', ''watch.'', ''stream.'']))]),
      (True, Seqs [Lit (CHR ''.''), Group 1 (Alts (map Lits [''com'', ''org'', ''net'', ''tv'', ''me'', ''to''])), Eol])]"

definition episode_info_pattern :: regex where
  "episode_info_pattern =
     Seqs [WordB,
       Group 1 (Alts
         [Seqs [Lit (CHR ''s''), Between 1 2 Digit, Lit (CHR ''e''), Between 1 2 Digit],
          Seqs [Lits ''season'', Star Space, Plus Digit],
          Seqs [Lits ''episode'', Star Space, Plus Digit],
          Seqs [Plus Digit, Lit (CHR ''x''), Plus Digit]]),
       WordB, to_end]"

definition cleanPatterns :: "(bool \<times> regex) list" where
  "cleanPatterns =
     [(True, Seqs [WordB, Between 3 4 Digit, Lit (CHR ''p''), WordB, to_end]),
      (True, Seqs [Word ''hdtv'', to_end]),
      (True, Seqs [Word ''bluray'', to_end]),
      (True, Seqs [Word ''webrip'', to_end]),
      (True, Seqs [Word ''x264'', to_end]),
      (True, Seqs [Word ''h264'', to_end]),
      (False, Seqs [Lits ''[-'', StarLazy Dot, Lits ''-]'', Eol])]"

fun remove_first :: "(bool \<times> regex) list \<Rightarrow> string \<Rightarrow> string" where
  "remove_first [] s = s"
| "remove_first ((ic, pattern) # ps) s = remove_first ps (replace_first ic pattern (const_repl []) s)"

text \<open>
  The year step of \<^verbatim>\<open>extractTitle\<close>: \<^verbatim>\<open>/\b(19|20)\d{2}\b/\<close> finds a year, \<^verbatim>\<open>indexOf\<close>
  the first place where its text occurs; the title is cut there when fewer than ten
  characters follow or only characters of \<^verbatim>\<open>/^[\s\-._\[\]()]*$/\<close>.
\<close>

definition title_year_pattern :: regex where
  "title_year_pattern =
     Seqs [WordB, Group 1 (Alt (Lits ''19'') (Lits ''20'')), Rep 2 (Some 2) True Digit, WordB]"

definition only_separators :: regex where
  "only_separators =
     Seqs [Bol,
       Star (Class False [CSpace, CChar (CHR ''-''), CChar (CHR ''.''), CChar (CHR ''_''),
                          CChar (CHR ''[''), CChar (CHR '']''), CChar (CHR ''(''), CChar (CHR '')'')]),
       Eol]"

definition cut_at :: "string \<Rightarrow> nat \<Rightarrow> string" where
  "cut_at basename yearIndex =
     (if length (trim (drop (yearIndex + 4) basename)) < 10
         \<or> test False only_separators (trim (drop (yearIndex + 4) basename))
      then trim (take yearIndex basename) else basename)"

definition cut_at_year :: "string \<Rightarrow> string" where
  "cut_at_year basename =
     (case exec False title_year_pattern basename of
        None \<Rightarrow> basename
      | Some (b, e, cs) \<Rightarrow>
          (case indexOf basename (substring basename b e) of
             None \<Rightarrow> basename
           | Some yearIndex \<Rightarrow> cut_at basename yearIndex))"

definition extractTitle :: "string \<Rightarrow> string" where
  "extractTitle filename =
     normalizeText (remove_first cleanPatterns
       (replace_first True episode_info_pattern (const_repl [])
         (cut_at_year (remove_first prefix_patterns filename))))"

section \<open>\<^verbatim>\<open>matchesImdbId\<close>\<close>

text \<open>\<^verbatim>\<open>imdbId.replace('tt', '')\<close>: the first \<^verbatim>\<open>tt\<close> of the identifier is taken out.\<close>

definition numericId_of :: "string \<Rightarrow> string" where
  "numericId_of imdbId =
     (case indexOf imdbId ''tt'' of
        None \<Rightarrow> imdbId
      | Some k \<Rightarrow> take k imdbId @ drop (k + 2) imdbId)"

text \<open>
  The pattern texts of \<^verbatim>\<open>directPatterns\<close> and \<^verbatim>\<open>separatorPatterns\<close>, each with its flag
  \<^verbatim>\<open>i\<close>; \<open>BS\<close> is the backslash.
\<close>

definition directPatterns :: "string \<Rightarrow> string \<Rightarrow> (bool \<times> string) list" where
  "directPatterns numericId imdbId =
     [(True, BS # ''btt'' @ numericId @ BS # ''b''),
      (False, BS # ''b'' @ numericId @ BS # ''b''),
      (True, ''imdb['' @ BS # ''s'' @ BS # ''-_]*'' @ numericId),
      (False, BS # ''['' @ numericId @ BS # '']''),
      (False, BS # ''('' @ numericId @ BS # '')''),
      (True, BS # ''b'' @ imdbId @ BS # ''b'')]"

definition separatorPatterns :: "string \<Rightarrow> (bool \<times> string) list" where
  "separatorPatterns numericId =
     [(True, ''imdb['' @ BS # ''s'' @ BS # ''-_'' @ BS # ''.]*'' @ numericId),
      (True, ''tt['' @ BS # ''s'' @ BS # ''-_'' @ BS # ''.]*'' @ numericId),
      (True, BS # ''b'' @ numericId @ ''['' @ BS # ''s'' @ BS # ''-_'' @ BS # ''.]*imdb'')]"

text \<open>
  The array of expressions is built before any of them is tried, so the first pattern
  text that is no pattern raises.
\<close>

fun compile_all :: "(bool \<times> string) list \<Rightarrow> regexp_error + (bool \<times> regex) list" where
  "compile_all [] = Inr []"
| "compile_all ((ic, p) # ps) =
     (case RegExp_new p of
        Inl e \<Rightarrow> Inl e
      | Inr r \<Rightarrow> (case compile_all ps of Inl e \<Rightarrow> Inl e | Inr rs \<Rightarrow> Inr ((ic, r) # rs)))"

fun test_any :: "(bool \<times> regex) list \<Rightarrow> string \<Rightarrow> bool" where
  "test_any [] s = False"
| "test_any ((ic, r) # rs) s = (if test ic r s then True else test_any rs s)"

text \<open>The loop over the runs of six to eight digits (\<^verbatim>\<open>/\b\d{6,8}\b/g\<close>) of the file name.\<close>

definition id_candidates :: regex where
  "id_candidates = Seqs [WordB, Between 6 8 Digit, WordB]"

fun fuzzy_imdb :: "string list \<Rightarrow> string \<Rightarrow> match_result option" where
  "fuzzy_imdb [] numericId = None"
| "fuzzy_imdb (m # ms) numericId =
     (if length m = length numericId \<and> calculateLevenshteinSimilarity m numericId \<ge> 0.8
      then Some (result (calculateLevenshteinSimilarity m numericId * 0.9) fuzzy_imdb_exact_length)
      else if length m > length numericId \<and> includes_str m numericId
      then Some (result 0.85 imdb_substring)
      else if length numericId > length m \<and> includes_str numericId m
      then Some (result 0.75 imdb_partial)
      else fuzzy_imdb ms numericId)"

definition imdb_after_direct :: "string \<Rightarrow> string \<Rightarrow> regexp_error + match_result" where
  "imdb_after_direct filename numericId =
     (case fuzzy_imdb (case match_g False id_candidates filename of None \<Rightarrow> [] | Some ms \<Rightarrow> ms)
             numericId of
        Some r \<Rightarrow> Inr r
      | None \<Rightarrow>
          (case compile_all (separatorPatterns numericId) of
             Inl e \<Rightarrow> Inl e
           | Inr seps \<Rightarrow>
               if test_any seps (toLowerCase filename) then Inr (result 0.9 imdb_with_separator)
               else Inr (result 0 no_imdb_match)))"

definition matchesImdbId :: "string \<Rightarrow> string \<Rightarrow> regexp_error + match_result" where
  "matchesImdbId filename imdbId =
     (case compile_all (directPatterns (numericId_of imdbId) imdbId) of
        Inl e \<Rightarrow> Inl e
      | Inr directs \<Rightarrow>
          if test_any directs (toLowerCase filename) then Inr (result 1.0 direct_imdb)
          else imdb_after_direct filename (numericId_of imdbId))"

section \<open>\<^verbatim>\<open>matchesByTitle\<close>\<close>

text \<open>A text or \<^verbatim>\<open>null\<close> is an option; \<^verbatim>\<open>if (x)\<close> holds for a text that is not empty.\<close>

definition truthy :: "string option \<Rightarrow> bool" where
  "truthy x = (case x of None \<Rightarrow> False | Some t \<Rightarrow> t \<noteq> [])"

text \<open>
  \<^verbatim>\<open>yearBonus - yearPenalty\<close>. A year that \<^verbatim>\<open>parseInt\<close> cannot read makes \<^verbatim>\<open>yearDiff\<close>
  \<^verbatim>\<open>NaN\<close>, and no comparison with it holds.
\<close>

definition year_diff_adjust :: "int option \<Rightarrow> int option \<Rightarrow> real" where
  "year_diff_adjust fy ty =
     (case (fy, ty) of
        (Some a, Some b) \<Rightarrow>
          if \<bar>a - b\<bar> = 0 then 0.25
          else if \<bar>a - b\<bar> = 1 then 0.15
          else if \<bar>a - b\<bar> \<le> 3 then 0.05
          else if \<bar>a - b\<bar> > 10 then - 0.2
          else 0
      | _ \<Rightarrow> 0)"

definition year_adjust :: "string option \<Rightarrow> string option \<Rightarrow> real" where
  "year_adjust targetYear fileYear =
     (if truthy targetYear \<and> truthy fileYear then
        year_diff_adjust (case fileYear of None \<Rightarrow> None | Some y \<Rightarrow> parseInt y)
                         (case targetYear of None \<Rightarrow> None | Some y \<Rightarrow> parseInt y)
      else if truthy targetYear \<and> \<not> truthy fileYear then 0.05
      else if \<not> truthy targetYear \<and> truthy fileYear then 0.03
      else 0.1)"

definition lengthBonus :: "string \<Rightarrow> string \<Rightarrow> real" where
  "lengthBonus fileTitle normalizedTarget =
     (if real (min (length fileTitle) (length normalizedTarget))
         / real (max (length fileTitle) (length normalizedTarget)) > 0.7 then 0.1 else 0)"

definition wordCountBonus :: "string \<Rightarrow> string \<Rightarrow> real" where
  "wordCountBonus fileTitle normalizedTarget =
     (if real (min (length (split_sp fileTitle)) (length (split_sp normalizedTarget)))
         / real (max (length (split_sp fileTitle)) (length (split_sp normalizedTarget))) > 0.8
      then 0.05 else 0)"

definition suspiciousPatterns :: regex where
  "suspiciousPatterns =
     Seqs [WordB,
       Group 1 (Alts (map Lits [''sample'', ''trailer'', ''teaser'', ''preview'', ''clip'', ''demo'', ''test''])),
       WordB]"

text \<open>The two demotions of a score above the threshold.\<close>

definition demote :: "string \<Rightarrow> string \<Rightarrow> real \<Rightarrow> real \<Rightarrow> real \<Rightarrow> real" where
  "demote filename normalizedTarget titleSimilarity threshold finalScore =
     (if finalScore > threshold then
        (if test True suspiciousPatterns filename then finalScore * 0.5 else finalScore)
        * (if length normalizedTarget < 5 \<and> titleSimilarity < 0.9 then 0.6 else 1)
      else finalScore)"

definition title_result :: "real \<Rightarrow> real \<Rightarrow> match_result" where
  "title_result threshold finalScore =
     (if finalScore \<ge> threshold then result finalScore enhanced_title_match
      else result finalScore below_threshold)"

definition score_title :: "string \<Rightarrow> string \<Rightarrow> string \<Rightarrow> real \<Rightarrow> real \<Rightarrow> real \<Rightarrow> match_result" where
  "score_title filename fileTitle normalizedTarget titleSimilarity adjust threshold =
     title_result threshold
       (demote filename normalizedTarget titleSimilarity threshold
          (max 0 (min 1.0 (titleSimilarity + adjust + lengthBonus fileTitle normalizedTarget
                            + wordCountBonus fileTitle normalizedTarget))))"

definition matchesByTitle :: "string \<Rightarrow> string \<Rightarrow> string option \<Rightarrow> real \<Rightarrow> match_result" where
  "matchesByTitle filename targetTitle targetYear threshold =
     (if extractTitle filename = [] then result 0 no_title
      else score_title filename (extractTitle filename) (normalizeText targetTitle)
             (calculateSimilarity (extractTitle filename) (normalizeText targetTitle))
             (year_adjust targetYear (extractYear filename)) threshold)"

section \<open>\<^verbatim>\<open>matchesEpisode\<close>\<close>

text \<open>
  The separators \<^verbatim>\<open>[\s\-_\.]*\<close>, \<^verbatim>\<open>[\s\-_\.]?\<close> and \<^verbatim>\<open>[\s\-_]*\<close>.
\<close>

definition sep_dot :: regex where
  "sep_dot = Star (Class False [CSpace, CChar (CHR ''-''), CChar (CHR ''_''), CChar (CHR ''.'')])"

definition sep_dot_opt :: regex where
  "sep_dot_opt = Opt (Class False [CSpace, CChar (CHR ''-''), CChar (CHR ''_''), CChar (CHR ''.'')])"

definition sep_plain :: regex where
  "sep_plain = Star (Class False [CSpace, CChar (CHR ''-''), CChar (CHR ''_'')])"

text \<open>
  \<^verbatim>\<open>exactPatterns\<close>, all with the flag \<^verbatim>\<open>i\<close>. The texts of the season and the episode
  (\<open>S\<close>, \<open>E\<close>, and \<open>SP\<close>, \<open>EP\<close> padded to two characters) come from \<^verbatim>\<open>toString\<close> of a
  number, so they hold digits, a minus sign or the letters of \<^verbatim>\<open>NaN\<close>, which a pattern
  reads as themselves.
\<close>

definition exactPatterns :: "string \<Rightarrow> string \<Rightarrow> string \<Rightarrow> string \<Rightarrow> regex list" where
  "exactPatterns S SP E EP =
     [Seqs [Lit (CHR ''s''), Lits SP, Lit (CHR ''e''), Lits EP, WordB],
      Seqs [Lit (CHR ''s''), Lits S, Lit (CHR ''e''), Lits E, WordB],
      Seqs [Lits S, Lit (CHR ''x''), Lits EP, WordB],
      Seqs [Lits S, Lit (CHR ''x''), Lits E, WordB],
      Seqs [Lit (CHR ''s''), Lits SP, sep_dot, Lit (CHR ''e''), Lits EP],
      Seqs [Lit (CHR ''s''), Lits S, sep_dot, Lit (CHR ''e''), Lits E],
      Seqs [Lits ''season'', sep_dot, Lits S, sep_dot, Lits ''episode'', sep_dot, Lits E],
      Seqs [Lits ''season'', sep_dot, Lits SP, sep_dot, Lits ''episode'', sep_dot, Lits EP],
      Seqs [Lit (CHR ''s''), Lits S, sep_dot_opt, Lit (CHR ''e''), Opt (Lit (CHR ''p'')), Lits E, WordB],
      Seqs [Lit (CHR ''s''), Lits SP, sep_dot_opt, Lit (CHR ''e''), Opt (Lit (CHR ''p'')), Lits EP, WordB],
      Seqs [WordB, Lit (CHR ''s''), Lits S, Lits EP, WordB],
      Seqs [WordB, Lit (CHR ''s''), Lits SP, Lits EP, WordB],
      Seqs [Lits ''.s'', Lits SP, Lits ''.e'', Lits EP, Lit (CHR ''.'')],
      Seqs [Lit (CHR ''.''), Lits S, Lit (CHR ''x''), Lits EP, Lit (CHR ''.'')],
      Seqs [Lits ''[s'', Lits SP, Lit (CHR ''e''), Lits EP, Lit (CHR '']'')],
      Seqs [Lits ''(s'', Lits SP, Lit (CHR ''e''), Lits EP, Lit (CHR '')'')],
      Seqs [Lits ''season'', sep_plain, Lits S, sep_plain, Lits ''ep'', sep_plain, Lits E],
      Seqs [Lit (CHR ''s''), Lits S, sep_plain, Lits EP]]"

fun matches_any :: "regex list \<Rightarrow> string \<Rightarrow> bool" where
  "matches_any [] s = False"
| "matches_any (r # rs) s = (if test True r s then True else matches_any rs s)"

text \<open>
  The loop over the neighbouring pairs of the numbers \<^verbatim>\<open>/\b\d{1,3}\b/g\<close> of the file
  name. A season or episode that is \<^verbatim>\<open>NaN\<close> equals no number.
\<close>

definition number_pattern :: regex where
  "number_pattern = Seqs [WordB, Between 1 3 Digit, WordB]"

fun fuzzy_episode :: "string list \<Rightarrow> int option \<Rightarrow> int option \<Rightarrow> match_result option" where
  "fuzzy_episode (a # b # ns) season episode =
     (if parseInt a = season \<and> season \<noteq> None \<and> parseInt b = episode \<and> episode \<noteq> None
      then Some (result 0.95 fuzzy_episode_exact)
      else if parseInt a = season \<and> season \<noteq> None
              \<and> (case (parseInt b, episode) of (Some e, Some ep) \<Rightarrow> \<bar>e - ep\<bar> = 1 | _ \<Rightarrow> False)
      then Some (result 0.8 fuzzy_episode_close)
      else if parseInt a = season \<and> season \<noteq> None then Some (result 0.6 fuzzy_season_only)
      else fuzzy_episode (b # ns) season episode)"
| "fuzzy_episode ns season episode = None"

text \<open>The loop for season 1: a number equal to the episode that does not look like a resolution.\<close>

fun episode_only :: "string list \<Rightarrow> string \<Rightarrow> int option \<Rightarrow> bool" where
  "episode_only [] filenameLC episode = False"
| "episode_only (m # ms) filenameLC episode =
     (if parseInt m = episode \<and> episode \<noteq> None
         \<and> (case parseInt m of None \<Rightarrow> False | Some num \<Rightarrow> num \<le> 50)
         \<and> \<not> includes_str filenameLC (toString (parseInt m) @ ''p'')
         \<and> \<not> includes_str filenameLC (toString (parseInt m) @ ''k'')
      then True else episode_only ms filenameLC episode)"

definition episode_fallbacks :: "string list option \<Rightarrow> string \<Rightarrow> int option \<Rightarrow> int option \<Rightarrow> match_result" where
  "episode_fallbacks numberMatches filenameLC season episode =
     (case fuzzy_episode (case numberMatches of None \<Rightarrow> [] | Some ns \<Rightarrow> ns) season episode of
        Some r \<Rightarrow> r
      | None \<Rightarrow>
          if season = Some 1 \<and> numberMatches \<noteq> None
             \<and> episode_only (case numberMatches of None \<Rightarrow> [] | Some ns \<Rightarrow> ns) filenameLC episode
          then result 0.7 episode_only_s1
          else if test True (Seqs [Lits ''season'', sep_plain, Lits (toString season)]) filenameLC
          then result 0.5 season_pack
          else result 0 no_match)"

definition matchesEpisode :: "string \<Rightarrow> int option \<Rightarrow> int option \<Rightarrow> match_result" where
  "matchesEpisode filename season episode =
     (if matches_any
           (exactPatterns (toString season) (padStart2 (toString season))
                          (toString episode) (padStart2 (toString episode)))
           (toLowerCase filename)
      then result 1.0 exact_episode
      else episode_fallbacks (match_g False number_pattern (toLowerCase filename))
             (toLowerCase filename) season episode)"

section \<open>\<^verbatim>\<open>analyzeFilename\<close>\<close>

definition qualityPatterns :: regex where
  "qualityPatterns =
     Seqs [WordB,
       Group 1 (Alts (map Lits [''1080p'', ''720p'', ''4k'', ''bluray'', ''web-dl'', ''webrip''])),
       WordB]"

definition negativePatterns :: regex where
  "negativePatterns =
     Seqs [WordB,
       Group 1 (Alts (map Lits [''sample'', ''trailer'', ''preview'', ''cam'', ''ts'', ''screener''])),
       WordB]"

text \<open>
  \<^verbatim>\<open>wordMatches\<close>: the words of the title that hold, or are held by, a word of the file
  name.
\<close>

fun some_overlap :: "string \<Rightarrow> string list \<Rightarrow> bool" where
  "some_overlap word [] = False"
| "some_overlap word (fw # fws) =
     (if includes_str fw word \<or> includes_str word fw then True else some_overlap word fws)"

fun wordMatches :: "string list \<Rightarrow> string list \<Rightarrow> string list" where
  "wordMatches [] filenameWords = []"
| "wordMatches (word # ws) filenameWords =
     (if some_overlap word filenameWords then word # wordMatches ws filenameWords
      else wordMatches ws filenameWords)"

definition year_points :: "string option \<Rightarrow> string \<Rightarrow> real" where
  "year_points targetYear basename =
     (case targetYear of
        None \<Rightarrow> 0
      | Some y \<Rightarrow> if y \<noteq> [] \<and> includes_str basename y then 0.2 else 0)"

definition title_points :: "string option \<Rightarrow> string \<Rightarrow> real" where
  "title_points targetTitle basename =
     (case targetTitle of
        None \<Rightarrow> 0
      | Some t \<Rightarrow>
          if t = [] then 0
          else if length (wordMatches (split_sp (normalizeText t)) (split_sp (normalizeText basename))) > 0
          then real (length (wordMatches (split_sp (normalizeText t)) (split_sp (normalizeText basename))))
               / real (length (split_sp (normalizeText t))) * 0.3
          else 0)"

definition quality_points :: "string \<Rightarrow> real" where
  "quality_points basename = (if test True qualityPatterns basename then 0.1 else 0)"

definition negative_points :: "string \<Rightarrow> real" where
  "negative_points basename = (if test True negativePatterns basename then 0.3 else 0)"

definition analyzeFilename :: "string \<Rightarrow> string option \<Rightarrow> string option \<Rightarrow> match_result" where
  "analyzeFilename filename targetTitle targetYear =
     result
       (max 0 (min 1
          (year_points targetYear (basename_without_ext filename)
           + title_points targetTitle (basename_without_ext filename)
           + quality_points (basename_without_ext filename)
           - negative_points (basename_without_ext filename))))
       filename_analysis"

section \<open>\<^verbatim>\<open>findBestMatches\<close>\<close>

record candidate_file =
  name :: string
  path :: string

datatype content_type = movie | series | other_type

text \<open>
  The movie branch. A strategy is a result with its weight. \<open>bestStrategy\<close> is the
  \<^verbatim>\<open>reduce\<close> that keeps the first of the highest scores.
\<close>

fun bestStrategy :: "match_result \<Rightarrow> (match_result \<times> real) list \<Rightarrow> match_result" where
  "bestStrategy best [] = best"
| "bestStrategy best ((current, w) # rest) =
     (if score current > score best then bestStrategy current rest else bestStrategy best rest)"

fun good_scores :: "(match_result \<times> real) list \<Rightarrow> nat" where
  "good_scores [] = 0"
| "good_scores ((r, w) # rest) = (if score r > 0.5 then Suc (good_scores rest) else good_scores rest)"

fun weighted_sum :: "(match_result \<times> real) list \<Rightarrow> real" where
  "weighted_sum [] = 0"
| "weighted_sum ((r, w) # rest) = score r * w + weighted_sum rest"

fun weight_sum :: "(match_result \<times> real) list \<Rightarrow> real" where
  "weight_sum [] = 0"
| "weight_sum ((r, w) # rest) = w + weight_sum rest"

definition combine_strategies :: "(match_result \<times> real) list \<Rightarrow> match_result" where
  "combine_strategies strategies =
     (case strategies of
        [] \<Rightarrow> result 0 none
      | (first, w) # rest \<Rightarrow>
          if good_scores strategies > 1
             \<and> weighted_sum strategies / weight_sum strategies > score (bestStrategy first rest)
          then result (weighted_sum strategies / weight_sum strategies) multi_strategy
          else bestStrategy first rest)"

definition movie_strategies :: "string \<Rightarrow> match_result \<Rightarrow> string option \<Rightarrow> string option
    \<Rightarrow> (match_result \<times> real) list" where
  "movie_strategies filename imdbMatch targetTitle targetYear =
     (imdbMatch, 0.7)
     # (case targetTitle of
          None \<Rightarrow> []
        | Some t \<Rightarrow> if t = [] then [] else [(matchesByTitle filename t targetYear 0.5, 0.6)])
     @ [(analyzeFilename filename targetTitle targetYear, 0.4)]"

definition movie_match :: "string \<Rightarrow> string \<Rightarrow> string option \<Rightarrow> string option
    \<Rightarrow> regexp_error + match_result" where
  "movie_match filename ident targetTitle targetYear =
     (case matchesImdbId filename ident of
        Inl e \<Rightarrow> Inl e
      | Inr imdbMatch \<Rightarrow>
          Inr (combine_strategies (movie_strategies filename imdbMatch targetTitle targetYear)))"

text \<open>
  The series branch. \<^verbatim>\<open>id.split(':')\<close> gives the identifier, the season and the
  episode; a part that is missing is \<^verbatim>\<open>undefined\<close>.
\<close>

fun split_colon :: "string \<Rightarrow> string list" where
  "split_colon [] = [[]]"
| "split_colon (c # cs) =
     (if c = CHR '':'' then [] # split_colon cs
      else (case split_colon cs of [] \<Rightarrow> [[c]] | w # ws \<Rightarrow> (c # w) # ws))"

definition part :: "string list \<Rightarrow> nat \<Rightarrow> string option" where
  "part ps k = (if k < length ps then Some (ps ! k) else None)"

definition series_combine :: "match_result \<Rightarrow> match_result \<Rightarrow> match_result" where
  "series_combine episodeMatch imdbMatch =
     (if score episodeMatch > 0 \<and> score imdbMatch > 0
      then result (score episodeMatch * 0.7 + score imdbMatch * 0.3) series_combined
      else if score episodeMatch > 0.6 then episodeMatch
      else if score imdbMatch > 0.7 \<and> score episodeMatch > 0.2
      then result (score imdbMatch * 0.6 + score episodeMatch * 0.4) series_imdb_weighted
      else if score episodeMatch > score imdbMatch then episodeMatch else imdbMatch)"

definition series_parts :: "string \<Rightarrow> string \<times> string option \<times> string option" where
  "series_parts ident =
     (case part (split_colon ident) 0 of None \<Rightarrow> [] | Some i \<Rightarrow> i,
      part (split_colon ident) 1, part (split_colon ident) 2)"

definition series_match :: "string \<Rightarrow> string \<Rightarrow> regexp_error + match_result" where
  "series_match filename ident =
     (case series_parts ident of
        (imdbId, season, episode) \<Rightarrow>
          if truthy season \<and> truthy episode then
            (case matchesImdbId filename imdbId of
               Inl e \<Rightarrow> Inl e
             | Inr imdbMatch \<Rightarrow>
                 Inr (series_combine
                        (matchesEpisode filename
                           (case season of None \<Rightarrow> None | Some t \<Rightarrow> parseInt t)
                           (case episode of None \<Rightarrow> None | Some t \<Rightarrow> parseInt t))
                        imdbMatch))
          else matchesImdbId filename imdbId)"

definition matchResult :: "content_type \<Rightarrow> string \<Rightarrow> string option \<Rightarrow> string option \<Rightarrow> string
    \<Rightarrow> regexp_error + match_result" where
  "matchResult type ident targetTitle targetYear filename =
     (case type of
        movie \<Rightarrow> movie_match filename ident targetTitle targetYear
      | series \<Rightarrow> series_match filename ident
      | other_type \<Rightarrow> Inr (result 0 none))"

text \<open>The loop over the files: an exception ends it; a file at or above \<open>minScore\<close> is kept.\<close>

fun collect_matches :: "candidate_file list \<Rightarrow> content_type \<Rightarrow> string \<Rightarrow> string option \<Rightarrow> string option \<Rightarrow> real
    \<Rightarrow> regexp_error + (candidate_file \<times> match_result) list" where
  "collect_matches [] type ident targetTitle targetYear minScore = Inr []"
| "collect_matches (f # fs) type ident targetTitle targetYear minScore =
     (case matchResult type ident targetTitle targetYear (name f) of
        Inl e \<Rightarrow> Inl e
      | Inr r \<Rightarrow>
          (case collect_matches fs type ident targetTitle targetYear minScore of
             Inl e \<Rightarrow> Inl e
           | Inr ms \<Rightarrow> if score r \<ge> minScore then Inr ((f, r) # ms) else Inr ms))"

text \<open>The comparison function of the final sort.\<close>

definition methodPriority :: "method_tag \<Rightarrow> real" where
  "methodPriority m =
     (case map_of
        [(direct_imdb, 10), (exact_episode, 9), (series_combined, 8), (enhanced_title_match, 7),
         (multi_strategy, 6), (fuzzy_imdb_exact_length, 5), (fuzzy_episode_exact, 4)] m of
        None \<Rightarrow> 0 | Some p \<Rightarrow> p)"

definition compare_matches :: "candidate_file \<times> match_result \<Rightarrow> candidate_file \<times> match_result \<Rightarrow> real" where
  "compare_matches a b =
     (if \<bar>score (snd a) - score (snd b)\<bar> < 0.01
      then methodPriority (methodTag (snd b)) - methodPriority (methodTag (snd a))
      else score (snd b) - score (snd a))"

text \<open>
  \<^verbatim>\<open>Array.prototype.sort\<close> belongs to the JavaScript engine. It is modelled as the stable
  insertion sort: each element in turn moves left past the elements that the comparison
  function puts after it. Every sort that ECMAScript allows gives this result when the
  comparison function is a consistent order on the array.
\<close>

fun insert_left :: "('a \<Rightarrow> 'a \<Rightarrow> real) \<Rightarrow> 'a \<Rightarrow> 'a list \<Rightarrow> 'a list" where
  "insert_left cmp x [] = [x]"
| "insert_left cmp x (y # ys) = (if cmp y x > 0 then y # insert_left cmp x ys else x # y # ys)"

fun sort_loop :: "('a \<Rightarrow> 'a \<Rightarrow> real) \<Rightarrow> 'a list \<Rightarrow> 'a list \<Rightarrow> 'a list" where
  "sort_loop cmp sorted_rev [] = rev sorted_rev"
| "sort_loop cmp sorted_rev (x # xs) = sort_loop cmp (insert_left cmp x sorted_rev) xs"

definition js_sort :: "('a \<Rightarrow> 'a \<Rightarrow> real) \<Rightarrow> 'a list \<Rightarrow> 'a list" where
  "js_sort cmp xs = sort_loop cmp [] xs"

definition rank :: "(candidate_file \<times> match_result) list \<Rightarrow> (candidate_file \<times> match_result) list" where
  "rank matches = js_sort compare_matches matches"

definition findBestMatches :: "candidate_file list \<Rightarrow> content_type \<Rightarrow> string \<Rightarrow> string option \<Rightarrow> string option
    \<Rightarrow> real \<Rightarrow> regexp_error + (candidate_file \<times> match_result) list" where
  "findBestMatches files type ident targetTitle targetYear minScore =
     (case collect_matches files type ident targetTitle targetYear minScore of
        Inl e \<Rightarrow> Inl e
      | Inr matches \<Rightarrow> Inr (rank matches))"

text \<open>
  The default of the parameter \<^verbatim>\<open>minScore\<close>, and the call of \<^verbatim>\<open>handleSubtitlesRequest\<close>
  (\<^verbatim>\<open>src/handlers/subtitles-handler.js\<close>): for a movie, title and year come from the
  movie information when there is one, and the minimum score is 0.3.
\<close>

definition default_minScore :: real where
  "default_minScore = 0.4"

definition handler_minScore :: real where
  "handler_minScore = 0.3"

record movie_info =
  title :: string
  year :: string

definition handler_matches :: "candidate_file list \<Rightarrow> content_type \<Rightarrow> string \<Rightarrow> movie_info option
    \<Rightarrow> regexp_error + (candidate_file \<times> match_result) list" where
  "handler_matches files type ident movieInfo =
     findBestMatches files type ident
       (if type = movie then (case movieInfo of None \<Rightarrow> None | Some mi \<Rightarrow> Some (title mi)) else None)
       (if type = movie then (case movieInfo of None \<Rightarrow> None | Some mi \<Rightarrow> Some (year mi)) else None)
       handler_minScore"

section \<open>Evaluation of the character classes\<close>

lemma isDigit_all: "\<forall>c. isDigit c = isDigit_bits c"
  by code_simp

lemma isLower_all: "\<forall>c. isLower c = isLower_bits c"
  by code_simp

lemma isUpper_all: "\<forall>c. isUpper c = isUpper_bits c"
  by code_simp

lemma isLowerLatin_all: "\<forall>c. isLowerLatin c = isLowerLatin_bits c"
  by code_simp

lemma isUpperLatin_all: "\<forall>c. isUpperLatin c = isUpperLatin_bits c"
  by code_simp

lemma isSpace_all: "\<forall>c. isSpace c = isSpace_bits c"
  by code_simp

lemma isDigit_code [code]: "isDigit c = isDigit_bits c"
  using isDigit_all by blast

lemma isLower_code [code]: "isLower c = isLower_bits c"
  using isLower_all by blast

lemma isUpper_code [code]: "isUpper c = isUpper_bits c"
  using isUpper_all by blast

lemma isLowerLatin_code [code]: "isLowerLatin c = isLowerLatin_bits c"
  using isLowerLatin_all by blast

lemma isUpperLatin_code [code]: "isUpperLatin c = isUpperLatin_bits c"
  using isUpperLatin_all by blast

lemma isSpace_code [code]: "isSpace c = isSpace_bits c"
  using isSpace_all by blast

section \<open>The identifier matcher and malformed identifiers\<close>


lemma test_any_iff: "test_any rs s = (\<exists>p\<in>set rs. test (fst p) (snd p) s)"
  by (induction rs) auto

lemma unclosed_group_raises: "matchesImdbId ''a.srt'' ''tt('' = Inl SyntaxError"
  by code_simp

lemma unclosed_group_request:
  "findBestMatches [\<lparr>name = ''a.srt'', path = ''a.srt''\<rparr>] movie ''tt('' None None default_minScore
     = Inl SyntaxError"
  by code_simp

text \<open>
  Claim C1 says that every operation of the engine returns a result on every input and
  that an identifier that cannot be read makes the identifier matcher return the
  no-match result. The source puts the identifier into pattern texts without escaping
  it, so for the movie identifier \<^verbatim>\<open>tt(\<close> the first \<^verbatim>\<open>new RegExp\<close> of \<^verbatim>\<open>matchesImdbId\<close>
  raises \<^verbatim>\<open>SyntaxError\<close>, and so does \<^verbatim>\<open>findBestMatches\<close>.
\<close>

theorem malformed_identifier_raises:
  "matchesImdbId ''a.srt'' ''tt('' = Inl SyntaxError
   \<and> findBestMatches [\<lparr>name = ''a.srt'', path = ''a.srt''\<rparr>] movie ''tt('' None None default_minScore
       = Inl SyntaxError"
  using unclosed_group_raises unclosed_group_request by simp

section \<open>The episode matcher\<close>






section \<open>The series strategy\<close>

lemma series_example_parts: "series_parts ''tt9999999:1:2'' = (''tt9999999'', Some ''1'', Some ''2'')"
  by code_simp

lemma series_example_imdb:
  "matchesImdbId ''tt9999999.S01E02.srt'' ''tt9999999'' = Inr \<lparr>score = 1, methodTag = direct_imdb\<rparr>"
  by code_simp

lemma series_example_episode:
  "matchesEpisode ''tt9999999.S01E02.srt'' (parseInt ''1'') (parseInt ''2'')
     = \<lparr>score = 1, methodTag = exact_episode\<rparr>"
  by code_simp

text \<open>
  Claim C4: for a series request whose identifier gives a season and an episode, the
  result for a file is 0.7 times the episode score plus 0.3 times the identifier score
  with the method \<open>series_combined\<close> when both scores are positive; otherwise the
  episode result when its score is above 0.6; otherwise 0.6 times the identifier score
  plus 0.4 times the episode score when the identifier score is above 0.7 and the
  episode score above 0.2; otherwise the result with the higher score.
\<close>

theorem series_strategy:
  assumes "series_parts ident = (imdbId, Some season, Some episode)"
    and "season \<noteq> []" and "episode \<noteq> []"
    and "matchesImdbId filename imdbId = Inr imdbMatch"
    and "episodeMatch = matchesEpisode filename (parseInt season) (parseInt episode)"
  shows "matchResult series ident targetTitle targetYear filename =
     Inr (if 0 < score episodeMatch \<and> 0 < score imdbMatch
          then \<lparr>score = 0.7 * score episodeMatch + 0.3 * score imdbMatch, methodTag = series_combined\<rparr>
          else if 0.6 < score episodeMatch then episodeMatch
          else if 0.7 < score imdbMatch \<and> 0.2 < score episodeMatch
          then \<lparr>score = 0.6 * score imdbMatch + 0.4 * score episodeMatch,
                methodTag = series_imdb_weighted\<rparr>
          else if score imdbMatch < score episodeMatch then episodeMatch else imdbMatch)"
  using assms
  by (simp add: matchResult_def series_match_def truthy_def series_combine_def result_def mult.commute)

theorem series_strategy_witness:
  "series_parts ''tt9999999:1:2'' = (''tt9999999'', Some ''1'', Some ''2'')
   \<and> ''1'' \<noteq> [] \<and> ''2'' \<noteq> []
   \<and> matchesImdbId ''tt9999999.S01E02.srt'' ''tt9999999'' = Inr \<lparr>score = 1, methodTag = direct_imdb\<rparr>
   \<and> matchResult series ''tt9999999:1:2'' None None ''tt9999999.S01E02.srt''
       = Inr \<lparr>score = 1, methodTag = series_combined\<rparr>"
  using series_example_parts series_example_imdb
    series_strategy [OF series_example_parts _ _ series_example_imdb refl, of None None]
  by (simp add: series_example_episode)

section \<open>Ranking\<close>





section \<open>Special cases of the similarity\<close>

lemma stop_words_normalise_to_empty: "normalizeText ''the'' = [] \<and> normalizeText ''a'' = []"
  by code_simp

lemma letter_normalises_to_itself: "normalizeText ''b'' = ''b''"
  by code_simp

text \<open>
  Claim C3 as it is stated fails: \<^verbatim>\<open>the\<close> and \<^verbatim>\<open>a\<close> both normalise to the empty
  string, and their similarity is 1.0, since the test for equal normal forms comes before
  the test for an empty one.
\<close>

theorem similarity_of_stop_words_counterexample:
  "normalizeText ''the'' = [] \<and> normalizeText ''a'' = [] \<and> calculateSimilarity ''the'' ''a'' = 1"
  using stop_words_normalise_to_empty
  by (simp add: calculateSimilarity_def similarity_of_norms_def)

text \<open>
  Claim C3, as amended: the similarity is 0 when one of the two strings is empty, and
  when the two normal forms differ and one of them is empty; two strings that are not
  empty and have the same normal form, the empty one included, have the similarity 1.0,
  because that test comes first.
\<close>

theorem similarity_special_cases:
  "(a = [] \<or> b = [] \<longrightarrow> calculateSimilarity a b = 0)
   \<and> (a \<noteq> [] \<and> b \<noteq> [] \<and> normalizeText a = normalizeText b \<longrightarrow> calculateSimilarity a b = 1)
   \<and> (a \<noteq> [] \<and> b \<noteq> [] \<and> normalizeText a \<noteq> normalizeText b
        \<and> (normalizeText a = [] \<or> normalizeText b = []) \<longrightarrow> calculateSimilarity a b = 0)"
  by (auto simp: calculateSimilarity_def similarity_of_norms_def)

theorem similarity_special_cases_witness:
  "calculateSimilarity [] ''b'' = 0
   \<and> normalizeText ''the'' = normalizeText ''a'' \<and> calculateSimilarity ''the'' ''a'' = 1
   \<and> normalizeText ''the'' \<noteq> normalizeText ''b'' \<and> normalizeText ''the'' = []
   \<and> calculateSimilarity ''the'' ''b'' = 0"
  using similarity_special_cases [of "[]" "''b''"] similarity_special_cases [of "''the''" "''a''"]
    similarity_special_cases [of "''the''" "''b''"]
    stop_words_normalise_to_empty letter_normalises_to_itself
  by simp

section \<open>Year extraction\<close>









section \<open>Idempotence of the normalisation\<close>

lemma split_sp_not_Nil: "split_sp s \<noteq> []"
  by (induction s) (auto split: list.splits)

lemma split_sp_no_space: "w \<in> set (split_sp s) \<Longrightarrow> CHR '' '' \<notin> set w"
  by (induction s arbitrary: w) (auto split: list.splits if_splits)

lemma split_sp_word: "CHR '' '' \<notin> set w \<Longrightarrow> split_sp w = [w]"
  by (induction w) auto

lemma split_sp_append: "CHR '' '' \<notin> set w \<Longrightarrow> split_sp (w @ CHR '' '' # t) = w # split_sp t"
  by (induction w) (auto split: list.splits)

lemma split_sp_join_sp:
  "ws \<noteq> [] \<Longrightarrow> \<forall>w\<in>set ws. CHR '' '' \<notin> set w \<Longrightarrow> split_sp (join_sp ws) = ws"
proof (induction ws rule: join_sp.induct)
  case 1
  then show ?case by simp
next
  case (2 w)
  then show ?case by (simp add: split_sp_word)
next
  case (3 w v ws)
  then show ?case by (simp add: split_sp_append)
qed

lemma keep_words_filter:
  "keep_words ws = filter (\<lambda>word. 0 < length word \<and> word \<notin> set stopWords) ws"
  by (induction ws) auto

lemma remove_stop_words_idem: "remove_stop_words (remove_stop_words s) = remove_stop_words s"
proof (cases "keep_words (split_sp s) = []")
  case True
  then show ?thesis by (simp add: remove_stop_words_def)
next
  case False
  have "\<forall>w\<in>set (keep_words (split_sp s)). CHR '' '' \<notin> set w"
    by (auto simp: keep_words_filter dest: split_sp_no_space)
  with False have "split_sp (join_sp (keep_words (split_sp s))) = keep_words (split_sp s)"
    by (rule split_sp_join_sp)
  then show ?thesis by (simp add: remove_stop_words_def keep_words_filter)
qed

lemma normalizeText_stop_words: "remove_stop_words (normalizeText s) = normalizeText s"
  by (simp add: normalizeText_def remove_stop_words_idem) (simp add: remove_stop_words_def)

lemma normalizeText_words:
  "normalizeText s \<noteq> [] \<Longrightarrow>
     split_sp (normalizeText s) = keep_words (split_sp (normalizeText s))"
proof -
  assume ne: "normalizeText s \<noteq> []"
  obtain x where x: "normalizeText s = remove_stop_words x"
    using ne by (auto simp: normalizeText_def split: if_splits)
  with ne have k: "keep_words (split_sp x) \<noteq> []"
    by (auto simp: remove_stop_words_def)
  have "\<forall>w\<in>set (keep_words (split_sp x)). CHR '' '' \<notin> set w"
    by (auto simp: keep_words_filter dest: split_sp_no_space)
  with k have "split_sp (join_sp (keep_words (split_sp x))) = keep_words (split_sp x)"
    by (rule split_sp_join_sp)
  then show ?thesis by (simp add: x remove_stop_words_def keep_words_filter)
qed

lemma apostrophe_first_pass: "normalizeText ''t's'' = ''ts''"
  by code_simp

lemma apostrophe_second_pass: "normalizeText ''ts'' = []"
  by code_simp

text \<open>
  Claim C6 as it is stated fails: \<^verbatim>\<open>t's\<close> normalises to \<^verbatim>\<open>ts\<close>, since the
  apostrophe is taken out after the release tags are, and \<^verbatim>\<open>ts\<close>, a release tag,
  normalises to the empty string.
\<close>

theorem normalize_twice_counterexample:
  "normalizeText ''t's'' = ''ts'' \<and> normalizeText (normalizeText ''t's'') = []
   \<and> normalizeText (normalizeText ''t's'') \<noteq> normalizeText ''t's''"
  by (simp add: apostrophe_first_pass apostrophe_second_pass)

text \<open>
  Claim C6, as amended: the last stage of the normalisation is idempotent. A normalised
  text is a fixed point of the removal of stop words, and when it is not empty its words
  are not empty and are no stop words. (The whole normalisation is not idempotent: a
  word can become an abbreviation, a release tag or a Roman numeral only when the
  apostrophes go.)
\<close>

theorem normalized_text_has_no_stop_words:
  "remove_stop_words (normalizeText s) = normalizeText s
   \<and> (normalizeText s \<noteq> [] \<longrightarrow>
        list_all (\<lambda>word. word \<noteq> [] \<and> word \<notin> set stopWords) (split_sp (normalizeText s)))"
proof (intro conjI impI)
  show "remove_stop_words (normalizeText s) = normalizeText s"
    by (rule normalizeText_stop_words)
next
  assume "normalizeText s \<noteq> []"
  then have "split_sp (normalizeText s) = keep_words (split_sp (normalizeText s))"
    by (rule normalizeText_words)
  moreover have "\<forall>word\<in>set (keep_words (split_sp (normalizeText s))). word \<noteq> [] \<and> word \<notin> set stopWords"
    by (auto simp: keep_words_filter)
  ultimately show "list_all (\<lambda>word. word \<noteq> [] \<and> word \<notin> set stopWords) (split_sp (normalizeText s))"
    by (simp add: list_all_iff)
qed

theorem normalized_text_has_no_stop_words_witness:
  "normalizeText ''t's'' \<noteq> []
   \<and> remove_stop_words (normalizeText ''t's'') = normalizeText ''t's''
   \<and> list_all (\<lambda>word. word \<noteq> [] \<and> word \<notin> set stopWords) (split_sp (normalizeText ''t's''))"
  using normalized_text_has_no_stop_words [of "''t's''"] apostrophe_first_pass
  by simp

section \<open>Movies without metadata\<close>

lemma analyze_without_metadata:
  "\<not> truthy targetTitle \<Longrightarrow> \<not> truthy targetYear
     \<Longrightarrow> score (analyzeFilename filename targetTitle targetYear) \<le> 0.1"
  by (auto simp: analyzeFilename_def result_def year_points_def title_points_def
        quality_points_def negative_points_def truthy_def split: option.splits)

lemma movie_without_metadata:
  assumes "\<not> truthy targetTitle" and "\<not> truthy targetYear"
    and "matchesImdbId filename ident = Inr imdbMatch" and "score imdbMatch = 0"
  shows "\<exists>r. matchResult movie ident targetTitle targetYear filename = Inr r \<and> score r \<le> 0.1"
proof -
  have t: "(case targetTitle of None \<Rightarrow> []
            | Some t \<Rightarrow> if t = [] then [] else [(matchesByTitle filename t targetYear 0.5, 0.6)]) = []"
    using assms(1) by (auto simp: truthy_def split: option.splits)
  have a: "score (analyzeFilename filename targetTitle targetYear) \<le> 0.1"
    using assms(1,2) by (rule analyze_without_metadata)
  show ?thesis
    using a assms(3,4)
    by (simp add: matchResult_def movie_match_def movie_strategies_def t combine_strategies_def)
qed

lemma collect_matches_member:
  "collect_matches files type ident targetTitle targetYear minScore = Inr ms \<Longrightarrow> (g, r) \<in> set ms
     \<Longrightarrow> matchResult type ident targetTitle targetYear (name g) = Inr r \<and> minScore \<le> score r"
proof (induction files arbitrary: ms)
  case Nil
  then show ?case by simp
next
  case (Cons f fs)
  then show ?case
    by (auto split: sum.splits if_splits)
qed

lemma set_insert_left: "set (insert_left cmp x ys) = insert x (set ys)"
  by (induction ys) auto

lemma set_sort_loop: "set (sort_loop cmp acc xs) = set acc \<union> set xs"
  by (induction xs arbitrary: acc) (auto simp: set_insert_left)

lemma set_rank: "set (rank ms) = set ms"
  by (simp add: rank_def js_sort_def set_sort_loop)

lemma year_only_imdb:
  "matchesImdbId ''2020.1080p.srt'' ''tt0111161'' = Inr \<lparr>score = 0, methodTag = no_imdb_match\<rparr>"
  by code_simp

lemma year_only_request:
  "findBestMatches [\<lparr>name = ''2020.1080p.srt'', path = ''2020.1080p.srt''\<rparr>] movie ''tt0111161''
      None (Some ''2020'') handler_minScore
   = Inr [(\<lparr>name = ''2020.1080p.srt'', path = ''2020.1080p.srt''\<rparr>,
           \<lparr>score = 0.3, methodTag = filename_analysis\<rparr>)]"
  by code_simp

lemma no_metadata_imdb:
  "matchesImdbId ''b.1080p.srt'' ''tt0111161'' = Inr \<lparr>score = 0, methodTag = no_imdb_match\<rparr>"
  by code_simp

text \<open>
  Claim C10 as it is stated fails: a movie request without a target title can have a
  target year. For the file \<^verbatim>\<open>2020.1080p.srt\<close>, the identifier \<^verbatim>\<open>tt0111161\<close>, no
  title and the year 2020 the identifier match scores 0, the file name analysis scores
  0.3 (year and quality tag), and the file is in the ranked output for the minimum score
  0.3 of the handler.
\<close>

theorem year_without_title_counterexample:
  "\<not> truthy None
   \<and> matchesImdbId ''2020.1080p.srt'' ''tt0111161'' = Inr \<lparr>score = 0, methodTag = no_imdb_match\<rparr>
   \<and> findBestMatches [\<lparr>name = ''2020.1080p.srt'', path = ''2020.1080p.srt''\<rparr>] movie ''tt0111161''
        None (Some ''2020'') handler_minScore
     = Inr [(\<lparr>name = ''2020.1080p.srt'', path = ''2020.1080p.srt''\<rparr>,
             \<lparr>score = 0.3, methodTag = filename_analysis\<rparr>)]"
  using year_only_imdb year_only_request by (simp add: truthy_def)

text \<open>
  Claim C10, as amended: for a movie request without a target title and without a target
  year, a file whose identifier match scores 0 gets a final score of at most 0.1, which
  is below the default minimum score 0.4 and the minimum score 0.3 of the handler; such a
  file is in no ranked output for a minimum score above 0.1.
\<close>

theorem movie_without_metadata_excluded:
  assumes "\<not> truthy targetTitle" and "\<not> truthy targetYear"
    and "matchesImdbId (name f) ident = Inr imdbMatch" and "score imdbMatch = 0"
  shows "(\<exists>r. matchResult movie ident targetTitle targetYear (name f) = Inr r \<and> score r \<le> 0.1)
    \<and> 0.1 < handler_minScore \<and> 0.1 < default_minScore
    \<and> (\<forall>out r. 0.1 < minScore
          \<and> findBestMatches files movie ident targetTitle targetYear minScore = Inr out
          \<longrightarrow> (f, r) \<notin> set out)"
proof (intro conjI allI impI)
  show m: "\<exists>r. matchResult movie ident targetTitle targetYear (name f) = Inr r \<and> score r \<le> 0.1"
    using assms by (rule movie_without_metadata)
  show "0.1 < handler_minScore" by (simp add: handler_minScore_def)
  show "0.1 < default_minScore" by (simp add: default_minScore_def)
  fix out r
  assume h: "0.1 < minScore
     \<and> findBestMatches files movie ident targetTitle targetYear minScore = Inr out"
  show "(f, r) \<notin> set out"
  proof
    assume "(f, r) \<in> set out"
    with h obtain ms where
      "collect_matches files movie ident targetTitle targetYear minScore = Inr ms" "(f, r) \<in> set ms"
      by (auto simp: findBestMatches_def set_rank split: sum.splits)
    then have "matchResult movie ident targetTitle targetYear (name f) = Inr r \<and> minScore \<le> score r"
      by (rule collect_matches_member)
    with m h show False by auto
  qed
qed

theorem movie_without_metadata_excluded_witness:
  "\<not> truthy None
   \<and> matchesImdbId ''b.1080p.srt'' ''tt0111161'' = Inr \<lparr>score = 0, methodTag = no_imdb_match\<rparr>
   \<and> (\<exists>r. matchResult movie ''tt0111161'' None None ''b.1080p.srt'' = Inr r \<and> score r \<le> 0.1)
   \<and> (\<lparr>name = ''b.1080p.srt'', path = ''b.1080p.srt''\<rparr>, \<lparr>score = 0.1, methodTag = filename_analysis\<rparr>)
       \<notin> set (case findBestMatches [\<lparr>name = ''b.1080p.srt'', path = ''b.1080p.srt''\<rparr>] movie
                      ''tt0111161'' None None handler_minScore of Inl e \<Rightarrow> [] | Inr out \<Rightarrow> out)"
proof -
  have t: "\<not> truthy None" by (simp add: truthy_def)
  have z: "score \<lparr>score = 0, methodTag = no_imdb_match\<rparr> = 0" by simp
  have n: "name \<lparr>name = ''b.1080p.srt'', path = ''b.1080p.srt''\<rparr> = ''b.1080p.srt''" by simp
  from movie_without_metadata_excluded
    [of None None "\<lparr>name = ''b.1080p.srt'', path = ''b.1080p.srt''\<rparr>" "''tt0111161''"
        "\<lparr>score = 0, methodTag = no_imdb_match\<rparr>" handler_minScore
        "[\<lparr>name = ''b.1080p.srt'', path = ''b.1080p.srt''\<rparr>]", OF t t _ z]
    no_metadata_imdb t n
  show ?thesis by (auto simp: handler_minScore_def split: sum.splits)
qed

section \<open>The five measures: bounds and symmetry\<close>



lemma distance_le_max: "distance s t \<le> max (length s) (length t)"
  by (induction s t rule: distance.induct) auto


lemma levenshtein_bounds:
  "0 \<le> calculateLevenshteinSimilarity s t \<and> calculateLevenshteinSimilarity s t \<le> 1"
proof -
  have "real (distance s t) \<le> real (max (length s) (length t))"
    using distance_le_max [of s t] by linarith
  then show ?thesis
    by (auto simp: calculateLevenshteinSimilarity_def divide_le_eq)
qed


lemma set_ratio_bounds: "0 \<le> set_ratio xs ys \<and> set_ratio xs ys \<le> 1"
proof -
  have "card (set xs \<inter> set ys) \<le> card (set xs \<union> set ys)"
    by (rule card_mono) auto
  then have "real (card (set xs \<inter> set ys)) \<le> real (card (set xs \<union> set ys))"
    by linarith
  then show ?thesis
    by (auto simp: set_ratio_def divide_le_eq)
qed


lemma jaccard_bounds: "0 \<le> calculateJaccardSimilarity s t \<and> calculateJaccardSimilarity s t \<le> 1"
  using set_ratio_bounds [of s t] by (simp add: calculateJaccardSimilarity_def)


lemma ngram_bounds:
  "0 \<le> calculateNGramSimilarity s t n \<and> calculateNGramSimilarity s t n \<le> 1"
  using set_ratio_bounds [of "generateNGrams s n" "generateNGrams t n"]
  by (simp add: calculateNGramSimilarity_def ngram_ratio_def)

lemma phonetic_partner_iff:
  "phonetic_partner c ws = (c \<noteq> [] \<and> c \<in> generatePhoneticCode ` set ws)"
  by (induction ws) auto

lemma phonetic_matches_filter:
  "phonetic_matches ws1 ws2 =
     length (filter (\<lambda>w. generatePhoneticCode w \<noteq> []
                        \<and> generatePhoneticCode w \<in> generatePhoneticCode ` set ws2) ws1)"
  by (induction ws1) (auto simp: phonetic_partner_iff)

lemma phonetic_matches_le: "phonetic_matches ws1 ws2 \<le> length ws1"
  by (simp add: phonetic_matches_filter)

lemma phonetic_bounds:
  "0 \<le> calculatePhoneticSimilarity s t \<and> calculatePhoneticSimilarity s t \<le> 1"
proof -
  have "phonetic_matches (split_sp s) (split_sp t) \<le> max (length (split_sp s)) (length (split_sp t))"
    using phonetic_matches_le [of "split_sp s" "split_sp t"] by linarith
  then have "real (phonetic_matches (split_sp s) (split_sp t))
      \<le> real (max (length (split_sp s)) (length (split_sp t)))"
    by linarith
  then show ?thesis
    by (auto simp: calculatePhoneticSimilarity_def divide_le_eq)
qed

lemma best_partner_bounds:
  "0 \<le> bestMatch \<Longrightarrow> bestMatch \<le> 1
     \<Longrightarrow> 0 \<le> fst (best_partner word1 ws exact used2 bestMatch bestWord)
         \<and> fst (best_partner word1 ws exact used2 bestMatch bestWord) \<le> 1"
proof (induction ws arbitrary: bestMatch bestWord)
  case Nil
  then show ?case by simp
next
  case (Cons word2 ws)
  have l: "0 \<le> calculateLevenshteinSimilarity word1 word2
      \<and> calculateLevenshteinSimilarity word1 word2 \<le> 1"
    by (rule levenshtein_bounds)
  show ?case
    using Cons.IH [of bestMatch bestWord] Cons.prems
      Cons.IH [of "calculateLevenshteinSimilarity word1 word2" "Some word2"] l
    by simp
qed

lemma partial_loop_bounds:
  "partialMatches \<le> partial_loop ws words2 exact used2 partialMatches
   \<and> partial_loop ws words2 exact used2 partialMatches
       \<le> partialMatches + real (length (filter (\<lambda>w. w \<notin> set exact) ws))"
proof (induction ws arbitrary: used2 partialMatches)
  case Nil
  then show ?case by simp
next
  case (Cons word1 ws)
  show ?case
  proof (cases "word1 \<in> set exact")
    case True
    then show ?thesis using Cons.IH [of partialMatches used2] by simp
  next
    case False
    obtain bm bw where b: "best_partner word1 words2 exact used2 0 None = (bm, bw)"
      by (cases "best_partner word1 words2 exact used2 0 None")
    have bb: "0 \<le> bm \<and> bm \<le> 1"
      using best_partner_bounds [of 0 word1 words2 exact used2 None] b by simp
    show ?thesis
    proof (cases bw)
      case None
      then show ?thesis using False b Cons.IH [of partialMatches used2] by simp
    next
      case (Some bestWord)
      show ?thesis
      proof (cases "bestWord = []")
        case True
        then show ?thesis using False b Some Cons.IH [of partialMatches used2] by simp
      next
        case ne: False
        then show ?thesis
          using False b Some bb Cons.IH [of "partialMatches + bm" "bestWord # used2"] by simp
      qed
    qed
  qed
qed

lemma exactMatches_set: "set (exactMatches words1 words2) = set words1 \<inter> set words2"
  by (auto simp: exactMatches_def)

lemma exactMatches_length: "length (exactMatches words1 words2) = card (set words1 \<inter> set words2)"
proof -
  have "distinct (exactMatches words1 words2)"
    by (simp add: exactMatches_def)
  then show ?thesis
    by (metis distinct_card exactMatches_set)
qed


lemma exactMatches_le:
  "length (exactMatches words1 words2)
     \<le> length (filter (\<lambda>w. w \<in> set (exactMatches words1 words2)) words1)"
proof -
  have "set (filter (\<lambda>w. w \<in> set (exactMatches words1 words2)) words1) = set words1 \<inter> set words2"
    by (auto simp: exactMatches_set)
  then have "card (set words1 \<inter> set words2)
      \<le> length (filter (\<lambda>w. w \<in> set (exactMatches words1 words2)) words1)"
    by (metis card_length)
  then show ?thesis by (simp add: exactMatches_length)
qed

lemma word_bounds:
  "0 \<le> calculateWordSimilarity words1 words2 \<and> calculateWordSimilarity words1 words2 \<le> 1"
proof (cases "words1 = [] \<or> words2 = []")
  case True
  then show ?thesis by (auto simp: calculateWordSimilarity_def)
next
  case False
  define E where "E = exactMatches words1 words2"
  define P where "P = partial_loop words1 words2 E [] 0"
  define T where "T = max (length words1) (length words2)"
  have T: "0 < T" using False by (cases words1) (auto simp: T_def)
  have P: "0 \<le> P \<and> P \<le> real (length (filter (\<lambda>w. w \<notin> set E) words1))"
    using partial_loop_bounds [of 0 words1 words2 E "[]"] by (simp add: P_def)
  have "length E + length (filter (\<lambda>w. w \<notin> set E) words1) \<le> length words1"
    using exactMatches_le [of words1 words2] sum_length_filter_compl [of "\<lambda>w. w \<in> set E" words1]
    by (simp add: E_def)
  then have "real (length E) + real (length (filter (\<lambda>w. w \<notin> set E) words1)) \<le> real T"
    by (simp add: T_def)
  with P have EP: "real (length E) + P \<le> real T" by linarith
  have w: "calculateWordSimilarity words1 words2 = real (length E) / real T + P / real T * 0.7"
    using False by (simp add: calculateWordSimilarity_def E_def P_def T_def)
  define x where "x = P / real T"
  define e where "e = real (length E) / real T"
  have x: "0 \<le> x" using P T by (simp add: x_def)
  have e: "0 \<le> e" using T by (simp add: e_def)
  have lo: "0 \<le> e + x * 0.7" using x e by simp
  have "e + x * 0.7 \<le> e + x" using x by simp
  also have "\<dots> = (real (length E) + P) / real T"
    by (simp add: e_def x_def add_divide_distrib)
  also have "\<dots> \<le> 1" using EP T by (simp add: divide_le_eq)
  finally show ?thesis using lo w by (simp add: e_def x_def)
qed

lemma weightedScore_bounds: "0 \<le> weightedScore norm1 norm2 \<and> weightedScore norm1 norm2 \<le> 1"
  using levenshtein_bounds [of norm1 norm2] jaccard_bounds [of norm1 norm2]
    phonetic_bounds [of norm1 norm2] word_bounds [of "split_sp norm1" "split_sp norm2"]
    ngram_bounds [of norm1 norm2 2]
  by (simp add: weightedScore_def)

lemma similarity_of_norms_bounds:
  "0 \<le> similarity_of_norms norm1 norm2 \<and> similarity_of_norms norm1 norm2 \<le> 1"
proof -
  have r: "0 \<le> real (length (if length norm1 \<le> length norm2 then norm1 else norm2))
              / real (length (if length norm1 > length norm2 then norm1 else norm2))
        \<and> real (length (if length norm1 \<le> length norm2 then norm1 else norm2))
              / real (length (if length norm1 > length norm2 then norm1 else norm2)) \<le> 1"
    by (auto simp: divide_le_eq)
  show ?thesis
    using weightedScore_bounds [of norm1 norm2] r
    by (simp add: similarity_of_norms_def)
qed

text \<open>
  Claim C7: for all strings the similarity lies between 0 and 1; the weighted sum of the
  five measures, with the bonus of 0.7 times the partial matches in the measure on words,
  lies between 0 and 1 as well, before it is capped.
\<close>

theorem similarity_bounded:
  "0 \<le> calculateSimilarity a b \<and> calculateSimilarity a b \<le> 1
   \<and> 0 \<le> weightedScore norm1 norm2 \<and> weightedScore norm1 norm2 \<le> 1"
  using similarity_of_norms_bounds [of "normalizeText a" "normalizeText b"]
    weightedScore_bounds [of norm1 norm2]
  by (simp add: calculateSimilarity_def)

theorem similarity_bounded_witness:
  "0 \<le> calculateSimilarity ''b b c'' ''c b'' \<and> calculateSimilarity ''b b c'' ''c b'' \<le> 1
   \<and> 0 \<le> weightedScore ''b b c'' ''c b'' \<and> weightedScore ''b b c'' ''c b'' \<le> 1"
  using similarity_bounded [of "''b b c''" "''c b''" "''b b c''" "''c b''"]
  by blast

section \<open>Symmetry of the similarity\<close>








end
